theory Spec2Isabelle
  imports Main "HOL-Library.AList" "HOL-Library.Char_ord" "HOL-Library.List_Lexorder"
begin

chapter \<open>The program\<close>

section \<open>Data model\<close>

text \<open>
  A Go map is an association list read with \<^const>\<open>map_of\<close>, written with
  \<^const>\<open>AList.update\<close> and \<^const>\<open>AList.delete\<close>; a \<open>range\<close> loop visits
  the entries in the order of the list (Go leaves the order open; the loops of this
  program add to or delete from sets, and the theorems below speak of look-ups, not of
  the order of a list).
  A reference type that may be \<open>nil\<close> (a map, a slice, a pointer) is an \<open>option\<close>,
  with \<open>None\<close> for \<open>nil\<close>. Strings are compared bytewise, as Go does.
\<close>

type_synonym UID = string

type_synonym ('k, 'v) gomap = "('k \<times> 'v) list"

text \<open>\<open>labels.Set\<close> is \<open>map[string]string\<close>; a pod without labels carries \<open>nil\<close>.\<close>

type_synonym labelSet = "(string, string) gomap option"

text \<open>
  \<open>labels.Selector\<close> as \<open>Set.AsSelectorPreValidated\<close> builds it (library
  k8s.io/apimachinery): one equality requirement (key, value) for each entry of the
  set, sorted by key; no requirement at all for a \<open>nil\<close> or empty set.
\<close>

type_synonym selector = "(string \<times> string) list"

definition AsSelectorPreValidated :: "labelSet \<Rightarrow> selector" where
  "AsSelectorPreValidated ls =
     (case ls of
        None \<Rightarrow> []
      | Some m \<Rightarrow>
          List.map_filter (\<lambda>k. map_option (Pair k) (map_of m k)) (sort (remdups (map fst m))))"

definition Empty :: "selector \<Rightarrow> bool" where
  "Empty sel = (sel = [])"

definition Get :: "labelSet \<Rightarrow> string \<Rightarrow> string option" where
  "Get ls k = (case ls of None \<Rightarrow> None | Some m \<Rightarrow> map_of m k)"

text \<open>A requirement \<open>key = value\<close> matches when the set has the key with that value.\<close>

definition Matches :: "selector \<Rightarrow> labelSet \<Rightarrow> bool" where
  "Matches sel ls = list_all (\<lambda>(k, v). Get ls k = Some v) sel"

text \<open>
  \<open>reflect.DeepEqual\<close> on two \<open>labels.Set\<close> values: both \<open>nil\<close>, or both not
  \<open>nil\<close> with the same entries.
\<close>

definition DeepEqual_Set :: "labelSet \<Rightarrow> labelSet \<Rightarrow> bool" where
  "DeepEqual_Set a b =
     (case (a, b) of
        (None, None) \<Rightarrow> True
      | (Some x, Some y) \<Rightarrow> list_all (\<lambda>k. map_of x k = map_of y k) (map fst x @ map fst y)
      | _ \<Rightarrow> False)"

text \<open>Reading a \<open>map[K]string\<close> at a missing key gives the empty string.\<close>

definition str_at :: "('k, string) gomap \<Rightarrow> 'k \<Rightarrow> string" where
  "str_at m k = (case map_of m k of None \<Rightarrow> [] | Some s \<Rightarrow> s)"

text \<open>\<open>metav1.OwnerReference\<close>; its two \<open>*bool\<close> fields may be \<open>nil\<close>.\<close>

record OwnerReference =
  RefAPIVersion :: string
  RefKind :: string
  RefName :: string
  RefUID :: UID
  Controller :: "bool option"
  BlockOwnerDeletion :: "bool option"

record Pod =
  PodUID :: UID
  PodName :: string
  PodNamespace :: string
  Labels :: labelSet
  OwnerReferences :: "OwnerReference list option"

record Service =
  SvcUID :: UID
  SvcName :: string
  SvcNamespace :: string
  SpecSelector :: labelSet

section \<open>PodServiceCache: the pod/service join index\<close>

text \<open>\<open>svcSet\<close> and \<open>podsSet\<close> are \<open>map[types.UID]bool\<close>; only \<open>true\<close> is ever stored.\<close>

type_synonym uidSet = "(UID, bool) gomap"

record PodServiceCache =
  svcUIDNamespaceCache :: "(UID, string) gomap"
  svcUIDNameCache :: "(UID, string) gomap"
  svcUIDSelectorCache :: "(UID, selector) gomap"
  podUIDLabelCache :: "(UID, labelSet) gomap"
  podUIDNamespaceCache :: "(UID, string) gomap"
  podSvcUIDCache :: "(UID, uidSet) gomap"
  svcPodUIDCache :: "(UID, uidSet) gomap"

definition NewPodServiceCache :: PodServiceCache where
  "NewPodServiceCache =
     \<lparr>svcUIDNamespaceCache = [], svcUIDNameCache = [], svcUIDSelectorCache = [],
      podUIDLabelCache = [], podUIDNamespaceCache = [], podSvcUIDCache = [],
      svcPodUIDCache = []\<rparr>"

text \<open>
  \<open>if _, exists := idx[k]; !exists { idx[k] = make(map[types.UID]bool) }\<close>, and the
  write \<open>idx[k][x] = true\<close> that the source runs after it, when the set is there.
\<close>

definition make_if_absent :: "(UID, uidSet) gomap \<Rightarrow> UID \<Rightarrow> (UID, uidSet) gomap" where
  "make_if_absent idx k = (case map_of idx k of None \<Rightarrow> AList.update k [] idx | Some s \<Rightarrow> idx)"

definition set_true :: "(UID, uidSet) gomap \<Rightarrow> UID \<Rightarrow> UID \<Rightarrow> (UID, uidSet) gomap" where
  "set_true idx k x =
     (case map_of idx k of
        None \<Rightarrow> idx
      | Some s \<Rightarrow> AList.update k (AList.update x True s) idx)"

text \<open>\<open>delete(idx[k], x)\<close>: nothing happens when \<open>idx[k]\<close> is missing (a \<open>nil\<close> map).\<close>

definition delete_in :: "(UID, uidSet) gomap \<Rightarrow> UID \<Rightarrow> UID \<Rightarrow> (UID, uidSet) gomap" where
  "delete_in idx k x =
     (case map_of idx k of
        None \<Rightarrow> idx
      | Some s \<Rightarrow> AList.update k (AList.delete x s) idx)"

text \<open>
  The body both refresh loops run for a matching pair: make the two sets when they are
  missing, then record the relation in both directions.
\<close>

definition relate :: "UID \<Rightarrow> UID \<Rightarrow> PodServiceCache \<Rightarrow> PodServiceCache" where
  "relate podUID svcUID psc =
     (let ps = make_if_absent (podSvcUIDCache psc) podUID;
          sp = make_if_absent (svcPodUIDCache psc) svcUID
      in psc\<lparr>podSvcUIDCache := set_true ps podUID svcUID,
              svcPodUIDCache := set_true sp svcUID podUID\<rparr>)"

fun refreshByService_loop ::
  "Service \<Rightarrow> selector \<Rightarrow> (UID \<times> labelSet) list \<Rightarrow> UID list \<times> PodServiceCache \<Rightarrow>
   UID list \<times> PodServiceCache" where
  "refreshByService_loop svc sel [] acc = acc"
| "refreshByService_loop svc sel ((podUID, ls) # rest) (pods, psc) =
     (if Matches sel ls \<and> str_at (podUIDNamespaceCache psc) podUID = SvcNamespace svc
      then refreshByService_loop svc sel rest (pods @ [podUID], relate podUID (SvcUID svc) psc)
      else refreshByService_loop svc sel rest (pods, psc))"

definition refreshCacheByService :: "PodServiceCache \<Rightarrow> Service \<Rightarrow> UID list \<times> PodServiceCache" where
  "refreshCacheByService psc svc =
     (case map_of (svcUIDSelectorCache psc) (SvcUID svc) of
        None \<Rightarrow> ([], psc)
      | Some sel \<Rightarrow> refreshByService_loop svc sel (podUIDLabelCache psc) ([], psc))"

fun refreshByPod_loop ::
  "Pod \<Rightarrow> labelSet \<Rightarrow> (UID \<times> selector) list \<Rightarrow> UID list \<times> PodServiceCache \<Rightarrow>
   UID list \<times> PodServiceCache" where
  "refreshByPod_loop pod ls [] acc = acc"
| "refreshByPod_loop pod ls ((svcUID, sel) # rest) (services, psc) =
     (if Matches sel ls \<and> str_at (svcUIDNamespaceCache psc) svcUID = PodNamespace pod
      then refreshByPod_loop pod ls rest (services @ [svcUID], relate (PodUID pod) svcUID psc)
      else refreshByPod_loop pod ls rest (services, psc))"

definition refreshCacheByPod :: "PodServiceCache \<Rightarrow> Pod \<Rightarrow> UID list \<times> PodServiceCache" where
  "refreshCacheByPod psc pod =
     (case map_of (podUIDLabelCache psc) (PodUID pod) of
        None \<Rightarrow> ([], psc)
      | Some ls \<Rightarrow> refreshByPod_loop pod ls (svcUIDSelectorCache psc) ([], psc))"

text \<open>
  \<open>SetService\<close>. The cached selector of a missing key is the \<open>nil\<close> interface, and
  \<open>reflect.DeepEqual\<close> of it with the selector just built is false; two built
  selectors are deeply equal when their requirement lists are.
\<close>

definition SetService :: "PodServiceCache \<Rightarrow> Service \<Rightarrow> PodServiceCache" where
  "SetService psc svc =
     (let sel = AsSelectorPreValidated (SpecSelector svc) in
      if Empty sel then psc
      else
        let cachedNamespace = str_at (svcUIDNamespaceCache psc) (SvcUID svc);
            cachedSelector = map_of (svcUIDSelectorCache psc) (SvcUID svc);
            cachedName = str_at (svcUIDNameCache psc) (SvcUID svc)
        in if cachedSelector = Some sel \<and> cachedName = SvcName svc
              \<and> cachedNamespace = SvcNamespace svc
           then psc
           else snd (refreshCacheByService
                  (psc\<lparr>svcUIDNamespaceCache :=
                          AList.update (SvcUID svc) (SvcNamespace svc) (svcUIDNamespaceCache psc),
                        svcUIDSelectorCache :=
                          AList.update (SvcUID svc) sel (svcUIDSelectorCache psc),
                        svcUIDNameCache :=
                          AList.update (SvcUID svc) (SvcName svc) (svcUIDNameCache psc)\<rparr>)
                  svc))"

definition DeleteServiceFromCache :: "PodServiceCache \<Rightarrow> UID \<Rightarrow> PodServiceCache" where
  "DeleteServiceFromCache psc svcUID =
     (let psc1 = psc\<lparr>svcUIDNamespaceCache := AList.delete svcUID (svcUIDNamespaceCache psc),
                     svcUIDSelectorCache := AList.delete svcUID (svcUIDSelectorCache psc),
                     svcUIDNameCache := AList.delete svcUID (svcUIDNameCache psc)\<rparr>
      in case map_of (svcPodUIDCache psc1) svcUID of
           None \<Rightarrow> psc1
         | Some podsSet \<Rightarrow>
             psc1\<lparr>podSvcUIDCache :=
                     fold (\<lambda>podUID idx. delete_in idx podUID svcUID) (map fst podsSet)
                       (podSvcUIDCache psc1),
                   svcPodUIDCache := AList.delete svcUID (svcPodUIDCache psc1)\<rparr>)"

definition SetPod :: "PodServiceCache \<Rightarrow> Pod \<Rightarrow> PodServiceCache" where
  "SetPod psc pod =
     (let ls = Labels pod;
          cachedLabelSet = (case map_of (podUIDLabelCache psc) (PodUID pod) of
                              None \<Rightarrow> None | Some c \<Rightarrow> c);
          cachedNamespace = str_at (podUIDNamespaceCache psc) (PodUID pod)
      in if DeepEqual_Set cachedLabelSet ls \<and> cachedNamespace = PodNamespace pod
         then psc
         else snd (refreshCacheByPod
                (psc\<lparr>podUIDNamespaceCache :=
                        AList.update (PodUID pod) (PodNamespace pod) (podUIDNamespaceCache psc),
                      podUIDLabelCache :=
                        AList.update (PodUID pod) ls (podUIDLabelCache psc)\<rparr>)
                pod))"

definition DeletePodFromCache :: "PodServiceCache \<Rightarrow> UID \<Rightarrow> PodServiceCache" where
  "DeletePodFromCache psc podUID =
     (let psc1 = psc\<lparr>podUIDNamespaceCache := AList.delete podUID (podUIDNamespaceCache psc),
                     podUIDLabelCache := AList.delete podUID (podUIDLabelCache psc)\<rparr>
      in case map_of (podSvcUIDCache psc1) podUID of
           None \<Rightarrow> psc1
         | Some servicesSet \<Rightarrow>
             psc1\<lparr>svcPodUIDCache :=
                     fold (\<lambda>svcUID idx. delete_in idx svcUID podUID) (map fst servicesSet)
                       (svcPodUIDCache psc1),
                   podSvcUIDCache := AList.delete podUID (podSvcUIDCache psc1)\<rparr>)"

text \<open>Sequences of calls on a fresh cache.\<close>

datatype psc_call =
  CallSetPod Pod
| CallSetService Service
| CallDeletePod UID
| CallDeleteService UID

fun psc_step :: "PodServiceCache \<Rightarrow> psc_call \<Rightarrow> PodServiceCache" where
  "psc_step psc (CallSetPod pod) = SetPod psc pod"
| "psc_step psc (CallSetService svc) = SetService psc svc"
| "psc_step psc (CallDeletePod k) = DeletePodFromCache psc k"
| "psc_step psc (CallDeleteService k) = DeleteServiceFromCache psc k"

definition psc_run :: "psc_call list \<Rightarrow> PodServiceCache" where
  "psc_run calls = foldl psc_step NewPodServiceCache calls"

text \<open>Membership in the join index: the keys of the set stored at a key.\<close>

definition members :: "(UID, uidSet) gomap \<Rightarrow> UID \<Rightarrow> UID set" where
  "members idx k = (case map_of idx k of None \<Rightarrow> {} | Some s \<Rightarrow> set (map fst s))"

definition svcs_of :: "PodServiceCache \<Rightarrow> UID \<Rightarrow> UID set" where
  "svcs_of psc podUID = members (podSvcUIDCache psc) podUID"

definition pods_of :: "PodServiceCache \<Rightarrow> UID \<Rightarrow> UID set" where
  "pods_of psc svcUID = members (svcPodUIDCache psc) svcUID"

definition join_sym :: "PodServiceCache \<Rightarrow> bool" where
  "join_sym psc = (\<forall>P S. S \<in> svcs_of psc P \<longleftrightarrow> P \<in> pods_of psc S)"

section \<open>Example resources\<close>

text \<open>
  The resources of the spec's end-to-end scenario: a pod and a service of namespace
  \<open>ns\<close>, the pod labelled \<open>app=foo\<close> and the service selecting \<open>app=foo\<close>; and the
  cache after both were set.
\<close>

definition ex_pod :: Pod where
  "ex_pod = \<lparr>PodUID = ''p1'', PodName = ''pod1'', PodNamespace = ''ns'',
             Labels = Some [(''app'', ''foo'')], OwnerReferences = None\<rparr>"

definition ex_svc :: Service where
  "ex_svc = \<lparr>SvcUID = ''s1'', SvcName = ''svc1'', SvcNamespace = ''ns'',
             SpecSelector = Some [(''app'', ''foo'')]\<rparr>"

definition ex_owned_pod :: Pod where
  "ex_owned_pod =
     ex_pod\<lparr>OwnerReferences :=
       Some [\<lparr>RefAPIVersion = ''apps/v1'', RefKind = ''ReplicaSet'', RefName = ''rs1'',
              RefUID = ''r1'', Controller = Some True, BlockOwnerDeletion = None\<rparr>]\<rparr>"

definition ex_joined :: PodServiceCache where
  "ex_joined = psc_run [CallSetPod ex_pod, CallSetService ex_svc]"

section \<open>Join index: what an upsert does to the membership sets\<close>

text \<open>
  The cached pods whose labels a selector matches in a namespace, and the cached
  services whose selector matches a label set in a namespace.
\<close>

definition matching_pods :: "PodServiceCache \<Rightarrow> selector \<Rightarrow> string \<Rightarrow> UID list" where
  "matching_pods psc sel ns =
     map fst (filter (\<lambda>(podUID, ls). Matches sel ls \<and> str_at (podUIDNamespaceCache psc) podUID = ns)
                (podUIDLabelCache psc))"

definition matching_services :: "PodServiceCache \<Rightarrow> labelSet \<Rightarrow> string \<Rightarrow> UID list" where
  "matching_services psc ls ns =
     map fst (filter (\<lambda>(svcUID, sel). Matches sel ls \<and> str_at (svcUIDNamespaceCache psc) svcUID = ns)
                (svcUIDSelectorCache psc))"

text \<open>The calls that are not no-ops: the guards of \<open>SetService\<close> and \<open>SetPod\<close>.\<close>

definition service_changed :: "PodServiceCache \<Rightarrow> Service \<Rightarrow> bool" where
  "service_changed psc svc =
     (\<not> Empty (AsSelectorPreValidated (SpecSelector svc)) \<and>
      \<not> (map_of (svcUIDSelectorCache psc) (SvcUID svc) = Some (AsSelectorPreValidated (SpecSelector svc))
         \<and> str_at (svcUIDNameCache psc) (SvcUID svc) = SvcName svc
         \<and> str_at (svcUIDNamespaceCache psc) (SvcUID svc) = SvcNamespace svc))"

definition pod_changed :: "PodServiceCache \<Rightarrow> Pod \<Rightarrow> bool" where
  "pod_changed psc pod =
     (\<not> (DeepEqual_Set (case map_of (podUIDLabelCache psc) (PodUID pod) of None \<Rightarrow> None | Some c \<Rightarrow> c)
            (Labels pod)
         \<and> str_at (podUIDNamespaceCache psc) (PodUID pod) = PodNamespace pod))"

text \<open>
  The keys of a Go map are distinct, and so are the keys of the lists that stand for the
  label and selector caches in every cache reached from a fresh one; there the matching
  pods and services are those that the look-ups give.
\<close>

definition distinct_keys :: "PodServiceCache \<Rightarrow> bool" where
  "distinct_keys psc =
     (distinct (map fst (podUIDLabelCache psc)) \<and> distinct (map fst (svcUIDSelectorCache psc)))"

section \<open>Join index: services with an empty selector\<close>

text \<open>A call that leaves the service \<open>S\<close> without a selector: any call but a
  \<open>SetService\<close> of \<open>S\<close> with a selector that is not empty.\<close>

fun sets_no_selector :: "UID \<Rightarrow> psc_call \<Rightarrow> bool" where
  "sets_no_selector S (CallSetService svc) =
     (SvcUID svc \<noteq> S \<or> Empty (AsSelectorPreValidated (SpecSelector svc)))"
| "sets_no_selector S (CallSetPod pod) = True"
| "sets_no_selector S (CallDeletePod k) = True"
| "sets_no_selector S (CallDeleteService k) = True"

definition unselected :: "UID \<Rightarrow> PodServiceCache \<Rightarrow> bool" where
  "unselected S psc =
     (map_of (svcUIDSelectorCache psc) S = None \<and> (\<forall>P. S \<notin> svcs_of psc P))"

section \<open>Join index: the service name of a pod\<close>

text \<open>
  \<open>getServiceNamesForPodUID\<close> collects the cached name of every service in the set of
  the pod; \<open>GetServiceNameForPodUID\<close> returns the pair (service, error): the empty
  string and the error when the list is empty, else the first name after
  \<open>sort.Strings\<close> and no error. \<open>getServiceNamesForPod\<close> and
  \<open>GetServiceNameForPod\<close> are the same code on \<open>pod.UID\<close>.
\<close>

definition getServiceNamesForPodUID :: "PodServiceCache \<Rightarrow> UID \<Rightarrow> string list" where
  "getServiceNamesForPodUID psc podUID =
     (case map_of (podSvcUIDCache psc) podUID of
        None \<Rightarrow> []
      | Some serviceUIDs \<Rightarrow> map (\<lambda>svcUID. str_at (svcUIDNameCache psc) svcUID) (map fst serviceUIDs))"

definition GetServiceNameForPodUID :: "PodServiceCache \<Rightarrow> UID \<Rightarrow> string \<times> string option" where
  "GetServiceNameForPodUID psc podUID =
     (let services = getServiceNamesForPodUID psc podUID in
      if length services = 0 then ([], Some ''no service matched pod'')
      else (hd (sort services), None))"

definition getServiceNamesForPod :: "PodServiceCache \<Rightarrow> Pod \<Rightarrow> string list" where
  "getServiceNamesForPod psc pod =
     (case map_of (podSvcUIDCache psc) (PodUID pod) of
        None \<Rightarrow> []
      | Some serviceUIDs \<Rightarrow> map (\<lambda>svcUID. str_at (svcUIDNameCache psc) svcUID) (map fst serviceUIDs))"

definition GetServiceNameForPod :: "PodServiceCache \<Rightarrow> Pod \<Rightarrow> string \<times> string option" where
  "GetServiceNameForPod psc pod =
     (let services = getServiceNamesForPod psc pod in
      if length services = 0 then ([], Some ''no service matched pod'')
      else (hd (sort services), None))"

definition GetPodUIDsForServiceUID :: "PodServiceCache \<Rightarrow> UID \<Rightarrow> UID list" where
  "GetPodUIDsForServiceUID psc svcUID =
     (case map_of (svcPodUIDCache psc) svcUID of None \<Rightarrow> [] | Some podSet \<Rightarrow> map fst podSet)"

definition GetPodUIDsForService :: "PodServiceCache \<Rightarrow> Service \<Rightarrow> UID list" where
  "GetPodUIDsForService psc svc = GetPodUIDsForServiceUID psc (SvcUID svc)"

section \<open>PodCache and ServiceCache: change detection\<close>

text \<open>Reading a map of maps, slices or interfaces at a missing key gives \<open>nil\<close>.\<close>

definition nil_at :: "('k, 'v option) gomap \<Rightarrow> 'k \<Rightarrow> 'v option" where
  "nil_at m k = (case map_of m k of None \<Rightarrow> None | Some v \<Rightarrow> v)"

record PodCache =
  pc_namespacePodUIDCache :: "(string, uidSet) gomap"
  pc_podUIDNamespaceCache :: "(UID, string) gomap"
  pc_podUIDLabelCache :: "(UID, labelSet) gomap"
  pc_podUIDORCache :: "(UID, OwnerReference list option) gomap"

definition NewPodCache :: PodCache where
  "NewPodCache =
     \<lparr>pc_namespacePodUIDCache = [], pc_podUIDNamespaceCache = [], pc_podUIDLabelCache = [],
      pc_podUIDORCache = []\<rparr>"

text \<open>
  \<open>PodCache.IsCached\<close>. \<open>reflect.DeepEqual\<close> on the owner references compares two
  slices of structs: both \<open>nil\<close>, or both not \<open>nil\<close> and equal element by element
  (pointer fields by what they point to), which is equality of the modelled values.
\<close>

definition PodCache_IsCached :: "PodCache \<Rightarrow> Pod \<Rightarrow> bool" where
  "PodCache_IsCached pc pod =
     (let labelSet = Labels pod;
          cachedLabelSet = nil_at (pc_podUIDLabelCache pc) (PodUID pod);
          cachedNamespace = str_at (pc_podUIDNamespaceCache pc) (PodUID pod);
          cachedOR = nil_at (pc_podUIDORCache pc) (PodUID pod)
      in DeepEqual_Set cachedLabelSet labelSet \<and> cachedNamespace = PodNamespace pod
         \<and> cachedOR = OwnerReferences pod)"

definition PodCache_AddPod :: "PodCache \<Rightarrow> Pod \<Rightarrow> PodCache" where
  "PodCache_AddPod pc pod =
     pc\<lparr>pc_namespacePodUIDCache :=
          set_true (make_if_absent (pc_namespacePodUIDCache pc) (PodNamespace pod))
            (PodNamespace pod) (PodUID pod),
        pc_podUIDNamespaceCache :=
          AList.update (PodUID pod) (PodNamespace pod) (pc_podUIDNamespaceCache pc),
        pc_podUIDLabelCache := AList.update (PodUID pod) (Labels pod) (pc_podUIDLabelCache pc),
        pc_podUIDORCache :=
          AList.update (PodUID pod) (OwnerReferences pod) (pc_podUIDORCache pc)\<rparr>"

definition PodCache_DeleteByKey :: "PodCache \<Rightarrow> UID \<Rightarrow> PodCache" where
  "PodCache_DeleteByKey pc key =
     (let namespace = str_at (pc_podUIDNamespaceCache pc) key in
      pc\<lparr>pc_namespacePodUIDCache := delete_in (pc_namespacePodUIDCache pc) namespace key,
         pc_podUIDNamespaceCache := AList.delete key (pc_podUIDNamespaceCache pc),
         pc_podUIDLabelCache := AList.delete key (pc_podUIDLabelCache pc)\<rparr>)"

definition GetLabels :: "PodCache \<Rightarrow> UID \<Rightarrow> labelSet" where
  "GetLabels pc key = nil_at (pc_podUIDLabelCache pc) key"

definition GetOwnerReferences :: "PodCache \<Rightarrow> UID \<Rightarrow> OwnerReference list option" where
  "GetOwnerReferences pc key = nil_at (pc_podUIDORCache pc) key"

definition GetPodsInNamespace :: "PodCache \<Rightarrow> string \<Rightarrow> UID list" where
  "GetPodsInNamespace pc namespace =
     (case map_of (pc_namespacePodUIDCache pc) namespace of
        None \<Rightarrow> []
      | Some podsSet \<Rightarrow> map fst podsSet)"

record ServiceCache =
  sc_svcUIDNamespaceCache :: "(UID, string) gomap"
  sc_svcUIDNameCache :: "(UID, string) gomap"
  sc_svcUIDSelectorCache :: "(UID, selector) gomap"
  sc_svcUIDPodsCache :: "(UID, uidSet) gomap"

definition NewServiceCache :: ServiceCache where
  "NewServiceCache =
     \<lparr>sc_svcUIDNamespaceCache = [], sc_svcUIDNameCache = [], sc_svcUIDSelectorCache = [],
      sc_svcUIDPodsCache = []\<rparr>"

text \<open>
  \<open>ServiceCache.IsCached\<close>. The cached selector of a missing key is the \<open>nil\<close>
  interface, which \<open>reflect.DeepEqual\<close> never finds equal to a built selector.
\<close>

definition ServiceCache_IsCached :: "ServiceCache \<Rightarrow> Service \<Rightarrow> bool" where
  "ServiceCache_IsCached sc svc =
     (let sel = AsSelectorPreValidated (SpecSelector svc);
          cachedNamespace = str_at (sc_svcUIDNamespaceCache sc) (SvcUID svc);
          cachedSelector = map_of (sc_svcUIDSelectorCache sc) (SvcUID svc);
          cachedName = str_at (sc_svcUIDNameCache sc) (SvcUID svc)
      in cachedSelector = Some sel \<and> cachedName = SvcName svc
         \<and> cachedNamespace = SvcNamespace svc)"

definition ServiceCache_AddService :: "ServiceCache \<Rightarrow> Service \<Rightarrow> ServiceCache" where
  "ServiceCache_AddService sc svc =
     (let sel = AsSelectorPreValidated (SpecSelector svc) in
      if Empty sel then sc
      else sc\<lparr>sc_svcUIDPodsCache := AList.update (SvcUID svc) [] (sc_svcUIDPodsCache sc),
              sc_svcUIDNamespaceCache :=
                AList.update (SvcUID svc) (SvcNamespace svc) (sc_svcUIDNamespaceCache sc),
              sc_svcUIDSelectorCache := AList.update (SvcUID svc) sel (sc_svcUIDSelectorCache sc),
              sc_svcUIDNameCache :=
                AList.update (SvcUID svc) (SvcName svc) (sc_svcUIDNameCache sc)\<rparr>)"

definition ServiceCache_DeleteByKey :: "ServiceCache \<Rightarrow> UID \<Rightarrow> UID list \<times> ServiceCache" where
  "ServiceCache_DeleteByKey sc key =
     (case map_of (sc_svcUIDPodsCache sc) key of None \<Rightarrow> [] | Some podsSet \<Rightarrow> map fst podsSet,
      sc\<lparr>sc_svcUIDPodsCache := AList.delete key (sc_svcUIDPodsCache sc),
         sc_svcUIDNamespaceCache := AList.delete key (sc_svcUIDNamespaceCache sc),
         sc_svcUIDSelectorCache := AList.delete key (sc_svcUIDSelectorCache sc),
         sc_svcUIDNameCache := AList.delete key (sc_svcUIDNameCache sc)\<rparr>)"

text \<open>A key that the cache has no record of.\<close>

definition pod_unrecorded :: "PodCache \<Rightarrow> UID \<Rightarrow> bool" where
  "pod_unrecorded pc k =
     (map_of (pc_podUIDNamespaceCache pc) k = None \<and> map_of (pc_podUIDLabelCache pc) k = None
      \<and> map_of (pc_podUIDORCache pc) k = None)"

definition svc_unrecorded :: "ServiceCache \<Rightarrow> UID \<Rightarrow> bool" where
  "svc_unrecorded sc k =
     (map_of (sc_svcUIDNamespaceCache sc) k = None \<and> map_of (sc_svcUIDNameCache sc) k = None
      \<and> map_of (sc_svcUIDSelectorCache sc) k = None)"

text \<open>Sequences of calls on the two caches.\<close>

datatype pc_call = PcAddPod Pod | PcDeleteByKey UID

fun pc_step :: "PodCache \<Rightarrow> pc_call \<Rightarrow> PodCache" where
  "pc_step pc (PcAddPod pod) = PodCache_AddPod pc pod"
| "pc_step pc (PcDeleteByKey k) = PodCache_DeleteByKey pc k"

fun pc_call_key :: "pc_call \<Rightarrow> UID" where
  "pc_call_key (PcAddPod pod) = PodUID pod"
| "pc_call_key (PcDeleteByKey k) = k"

datatype sc_call = ScAddService Service | ScDeleteByKey UID

fun sc_step :: "ServiceCache \<Rightarrow> sc_call \<Rightarrow> ServiceCache" where
  "sc_step sc (ScAddService svc) = ServiceCache_AddService sc svc"
| "sc_step sc (ScDeleteByKey k) = snd (ServiceCache_DeleteByKey sc k)"

fun sc_call_key :: "sc_call \<Rightarrow> UID" where
  "sc_call_key (ScAddService svc) = SvcUID svc"
| "sc_call_key (ScDeleteByKey k) = k"

section \<open>PodCache: what a delete purges\<close>

text \<open>
  A call that adds a pod under the key \<open>k\<close>; and the state of a cache in which the pod
  is the last one added under its key: its owner references are recorded, and either its
  namespace is recorded or the key has been deleted since, from the namespace cache and
  from the set of its namespace.
\<close>

fun adds_key :: "UID \<Rightarrow> pc_call \<Rightarrow> bool" where
  "adds_key k (PcAddPod pod) = (PodUID pod = k)"
| "adds_key k (PcDeleteByKey k') = False"

definition last_added :: "PodCache \<Rightarrow> Pod \<Rightarrow> bool" where
  "last_added pc pod =
     (map_of (pc_podUIDORCache pc) (PodUID pod) = Some (OwnerReferences pod)
      \<and> (map_of (pc_podUIDNamespaceCache pc) (PodUID pod) = Some (PodNamespace pod)
         \<or> map_of (pc_podUIDNamespaceCache pc) (PodUID pod) = None
            \<and> PodUID pod \<notin> members (pc_namespacePodUIDCache pc) (PodNamespace pod)))"

section \<open>DatapointCache\<close>

text \<open>
  The run-time panics of Go that the cache can raise.
\<close>

datatype fault = NilPointerDereference | AssignmentToEntryInNilMap

record Dimension =
  Name :: string
  Value :: string

record DimProperties =
  Dimension :: Dimension
  Properties :: "(string, string) gomap option"
  Tags :: "(string, bool) gomap option"

text \<open>
  \<open>dpCache\<close> holds slices of pointers to datapoints: a pointer is an address (a
  natural number) into the store of section \<open>Reads\<close>. \<open>dimPropCache\<close> holds pointers
  to records that nothing else refers to, so it is modelled by the records themselves,
  \<open>None\<close> for a \<open>nil\<close> pointer.
\<close>

record DatapointCache =
  dpCache :: "(UID, nat list option) gomap"
  dimPropCache :: "(UID, DimProperties option) gomap"
  uidKindCache :: "(UID, string) gomap"
  podServiceCache :: PodServiceCache
  useNodeName :: bool

definition NewDatapointCache :: "bool \<Rightarrow> DatapointCache" where
  "NewDatapointCache b =
     \<lparr>dpCache = [], dimPropCache = [], uidKindCache = [],
      podServiceCache = NewPodServiceCache, useNodeName = b\<rparr>"

text \<open>
  The resources \<open>HandleAdd\<close> receives. The nine handled types all embed
  \<open>metav1.ObjectMeta\<close>, so each implements \<open>ObjectMetaAccessor\<close> and its
  \<open>GetObjectMeta\<close> is the address of the embedded struct, never \<open>nil\<close> (a resource
  is an object, not a \<open>nil\<close> pointer of one of these types). Any other
  \<open>runtime.Object\<close> is \<open>OtherObj\<close>, with the UID of its object meta when it has
  one. For the seven kinds without a join, the fields that the derivation functions read
  are an uninterpreted \<open>ObjBody\<close>.
\<close>

record K8sObject =
  ObjUID :: UID
  ObjName :: string
  ObjNamespace :: string
  ObjBody :: string

datatype Object =
  PodObj Pod
| NamespaceObj K8sObject
| ReplicationControllerObj K8sObject
| DaemonSetObj K8sObject
| DeploymentObj K8sObject
| ReplicaSetObj K8sObject
| ResourceQuotaObj K8sObject
| NodeObj K8sObject
| ServiceObj Service
| OtherObj "UID option"

fun keyForObject :: "Object \<Rightarrow> string + UID" where
  "keyForObject (PodObj ob) = Inr (PodUID ob)"
| "keyForObject (NamespaceObj ob) = Inr (ObjUID ob)"
| "keyForObject (ReplicationControllerObj ob) = Inr (ObjUID ob)"
| "keyForObject (DaemonSetObj ob) = Inr (ObjUID ob)"
| "keyForObject (DeploymentObj ob) = Inr (ObjUID ob)"
| "keyForObject (ReplicaSetObj ob) = Inr (ObjUID ob)"
| "keyForObject (ResourceQuotaObj ob) = Inr (ObjUID ob)"
| "keyForObject (NodeObj ob) = Inr (ObjUID ob)"
| "keyForObject (ServiceObj ob) = Inr (SvcUID ob)"
| "keyForObject (OtherObj None) = Inl ''K8s object is not of the expected form''"
| "keyForObject (OtherObj (Some uid)) = Inr uid"

text \<open>
  The functions that derive datapoints and dimension properties from a resource are in
  files of the package that are not among the sources: they are parameters of the model.
  A derived record is freshly built, with no other reference to it.
\<close>

record Derive =
  datapointsForPod :: "Pod \<Rightarrow> nat list option"
  dimPropsForPod :: "Pod \<Rightarrow> DimProperties option"
  datapointsForNamespace :: "K8sObject \<Rightarrow> nat list option"
  datapointsForReplicationController :: "K8sObject \<Rightarrow> nat list option"
  datapointsForDaemonSet :: "K8sObject \<Rightarrow> nat list option"
  datapointsForDeployment :: "K8sObject \<Rightarrow> nat list option"
  dimPropsForDeployment :: "K8sObject \<Rightarrow> DimProperties option"
  datapointsForReplicaSet :: "K8sObject \<Rightarrow> nat list option"
  dimPropsForReplicaSet :: "K8sObject \<Rightarrow> DimProperties option"
  datapointsForResourceQuota :: "K8sObject \<Rightarrow> nat list option"
  datapointsForNode :: "K8sObject \<Rightarrow> bool \<Rightarrow> nat list option"
  dimPropsForNode :: "K8sObject \<Rightarrow> bool \<Rightarrow> DimProperties option"

text \<open>Reading and writing a property map that may be \<open>nil\<close>.\<close>

definition prop_at :: "(string, string) gomap option \<Rightarrow> string \<Rightarrow> string" where
  "prop_at m k = (case m of None \<Rightarrow> [] | Some al \<Rightarrow> str_at al k)"

definition prop_set ::
  "(string, string) gomap option \<Rightarrow> string \<Rightarrow> string \<Rightarrow> fault + (string, string) gomap option" where
  "prop_set m k v =
     (case m of None \<Rightarrow> Inl AssignmentToEntryInNilMap | Some al \<Rightarrow> Inr (Some (AList.update k v al)))"

definition prop_delete :: "(string, string) gomap option \<Rightarrow> string \<Rightarrow> (string, string) gomap option" where
  "prop_delete m k = (case m of None \<Rightarrow> None | Some al \<Rightarrow> Some (AList.delete k al))"

text \<open>
  \<open>updateServicePropForPods\<close>: for each pod, \<open>dc.dimPropCache[podUID].Properties\<close> is
  read through the cached pointer, which is \<open>nil\<close> for a key without a record.
\<close>

definition updateServiceProp :: "DatapointCache \<Rightarrow> UID \<Rightarrow> fault + DatapointCache" where
  "updateServiceProp dc podUID =
     (let (service, err) = GetServiceNameForPodUID (podServiceCache dc) podUID in
      case nil_at (dimPropCache dc) podUID of
        None \<Rightarrow> Inl NilPointerDereference
      | Some dp \<Rightarrow>
          if err \<noteq> None
          then Inr (dc\<lparr>dimPropCache :=
                 AList.update podUID (Some (dp\<lparr>Properties := prop_delete (Properties dp) ''service''\<rparr>))
                   (dimPropCache dc)\<rparr>)
          else (case prop_set (Properties dp) ''service'' service of
                  Inl f \<Rightarrow> Inl f
                | Inr ps \<Rightarrow>
                    Inr (dc\<lparr>dimPropCache :=
                      AList.update podUID (Some (dp\<lparr>Properties := ps\<rparr>)) (dimPropCache dc)\<rparr>)))"

fun updateServicePropForPods :: "DatapointCache \<Rightarrow> UID list \<Rightarrow> fault + DatapointCache" where
  "updateServicePropForPods dc [] = Inr dc"
| "updateServicePropForPods dc (podUID # rest) =
     (case updateServiceProp dc podUID of
        Inl f \<Rightarrow> Inl f
      | Inr dc' \<Rightarrow> updateServicePropForPods dc' rest)"

definition handleAddPod ::
  "Derive \<Rightarrow> DatapointCache \<Rightarrow> Pod \<Rightarrow>
   fault + (nat list option \<times> DimProperties option \<times> DatapointCache)" where
  "handleAddPod D dc pod =
     (let dps = datapointsForPod D pod;
          dimProps = dimPropsForPod D pod;
          dc1 = dc\<lparr>podServiceCache := SetPod (podServiceCache dc) pod\<rparr>;
          (service, err) = GetServiceNameForPod (podServiceCache dc1) pod
      in if err = None
         then (case dimProps of
                 None \<Rightarrow> Inl NilPointerDereference
               | Some dp \<Rightarrow>
                   (case prop_set (Properties dp) ''service'' service of
                      Inl f \<Rightarrow> Inl f
                    | Inr ps \<Rightarrow> Inr (dps, Some (dp\<lparr>Properties := ps\<rparr>), dc1)))
         else Inr (dps, dimProps, dc1))"

definition handleDeletePod :: "DatapointCache \<Rightarrow> UID \<Rightarrow> DatapointCache" where
  "handleDeletePod dc cacheKey =
     dc\<lparr>podServiceCache := DeletePodFromCache (podServiceCache dc) cacheKey\<rparr>"

definition handleAddService :: "DatapointCache \<Rightarrow> Service \<Rightarrow> fault + DatapointCache" where
  "handleAddService dc svc =
     (let dc1 = dc\<lparr>podServiceCache := SetService (podServiceCache dc) svc\<rparr>;
          podUIDs = GetPodUIDsForService (podServiceCache dc1) svc
      in updateServicePropForPods dc1 podUIDs)"

definition handleDeleteService :: "DatapointCache \<Rightarrow> UID \<Rightarrow> fault + DatapointCache" where
  "handleDeleteService dc cacheKey =
     (let podUIDs = GetPodUIDsForServiceUID (podServiceCache dc) cacheKey;
          dc1 = dc\<lparr>podServiceCache := DeleteServiceFromCache (podServiceCache dc) cacheKey\<rparr>
      in updateServicePropForPods dc1 podUIDs)"

text \<open>
  \<open>addDimPropsToCache\<close> and its property links. The slice of links in the source is
  empty (its one entry is commented out), so the loop over it never runs its body; the
  body is modelled all the same: \<open>pull_loop\<close> copies a property of the cached records of
  the source kind into the new record, \<open>push_loop\<close> copies a property of the new record
  into the cached records of the target kind.
\<close>

record propertyLink =
  SourceProperty :: string
  SourceKind :: string
  SourceJoinKey :: string
  TargetProperty :: string
  TargetKind :: string
  TargetJoinKey :: string

definition links :: "propertyLink list" where
  "links = []"

fun pull_loop ::
  "propertyLink \<Rightarrow> DatapointCache \<Rightarrow> UID list \<Rightarrow> DimProperties \<Rightarrow> fault + DimProperties" where
  "pull_loop link dc [] dimProps = Inr dimProps"
| "pull_loop link dc (cachedKey # rest) dimProps =
     (if str_at (uidKindCache dc) cachedKey = SourceKind link
      then (case nil_at (dimPropCache dc) cachedKey of
              None \<Rightarrow> Inl NilPointerDereference
            | Some cached \<Rightarrow>
                if prop_at (Properties cached) (SourceJoinKey link) \<noteq> [] \<and>
                   prop_at (Properties cached) (SourceJoinKey link) =
                     prop_at (Properties dimProps) (TargetJoinKey link)
                then (case prop_set (Properties dimProps) (TargetProperty link)
                             (prop_at (Properties cached) (SourceProperty link)) of
                        Inl f \<Rightarrow> Inl f
                      | Inr ps \<Rightarrow> pull_loop link dc rest (dimProps\<lparr>Properties := ps\<rparr>))
                else pull_loop link dc rest dimProps)
      else pull_loop link dc rest dimProps)"

fun push_loop ::
  "propertyLink \<Rightarrow> DimProperties \<Rightarrow> UID list \<Rightarrow> DatapointCache \<Rightarrow> fault + DatapointCache" where
  "push_loop link dimProps [] dc = Inr dc"
| "push_loop link dimProps (cachedKey # rest) dc =
     (if str_at (uidKindCache dc) cachedKey = TargetKind link
      then (case nil_at (dimPropCache dc) cachedKey of
              None \<Rightarrow> Inl NilPointerDereference
            | Some cached \<Rightarrow>
                if prop_at (Properties cached) (TargetJoinKey link) \<noteq> [] \<and>
                   prop_at (Properties cached) (TargetJoinKey link) =
                     prop_at (Properties dimProps) (SourceJoinKey link)
                then (case prop_set (Properties cached) (TargetProperty link)
                             (prop_at (Properties dimProps) (SourceProperty link)) of
                        Inl f \<Rightarrow> Inl f
                      | Inr ps \<Rightarrow>
                          push_loop link dimProps rest
                            (dc\<lparr>dimPropCache :=
                               AList.update cachedKey (Some (cached\<lparr>Properties := ps\<rparr>))
                                 (dimPropCache dc)\<rparr>))
                else push_loop link dimProps rest dc)
      else push_loop link dimProps rest dc)"

fun links_loop ::
  "propertyLink list \<Rightarrow> UID \<Rightarrow> DimProperties \<times> DatapointCache \<Rightarrow>
   fault + DimProperties \<times> DatapointCache" where
  "links_loop [] key acc = Inr acc"
| "links_loop (link # rest) key (dimProps, dc) =
     (case (if str_at (uidKindCache dc) key = TargetKind link
            then pull_loop link dc (map fst (dimPropCache dc)) dimProps
            else Inr dimProps) of
        Inl f \<Rightarrow> Inl f
      | Inr dimProps1 \<Rightarrow>
          (case (if str_at (uidKindCache dc) key = SourceKind link
                 then push_loop link dimProps1 (map fst (dimPropCache dc)) dc
                 else Inr dc) of
             Inl f \<Rightarrow> Inl f
           | Inr dc1 \<Rightarrow> links_loop rest key (dimProps1, dc1)))"

definition addDimPropsToCache ::
  "DatapointCache \<Rightarrow> UID \<Rightarrow> DimProperties \<Rightarrow> fault + DatapointCache" where
  "addDimPropsToCache dc key dimProps =
     (case links_loop links key (dimProps, dc) of
        Inl f \<Rightarrow> Inl f
      | Inr (dimProps1, dc1) \<Rightarrow>
          Inr (dc1\<lparr>dimPropCache := AList.update key (Some dimProps1) (dimPropCache dc1)\<rparr>))"

fun addProperties_loop ::
  "UID \<Rightarrow> (string \<times> string) list \<Rightarrow> DatapointCache \<Rightarrow> fault + DatapointCache" where
  "addProperties_loop cacheKey [] dc = Inr dc"
| "addProperties_loop cacheKey ((k, v) # rest) dc =
     (case nil_at (dimPropCache dc) cacheKey of
        None \<Rightarrow> Inl NilPointerDereference
      | Some dp \<Rightarrow>
          (case prop_set (Properties dp) k v of
             Inl f \<Rightarrow> Inl f
           | Inr ps \<Rightarrow>
               addProperties_loop cacheKey rest
                 (dc\<lparr>dimPropCache :=
                    AList.update cacheKey (Some (dp\<lparr>Properties := ps\<rparr>)) (dimPropCache dc)\<rparr>)))"

definition addPropertiesToDimProps ::
  "DatapointCache \<Rightarrow> UID \<Rightarrow> (string, string) gomap \<Rightarrow> fault + DatapointCache" where
  "addPropertiesToDimProps dc key newProps = addProperties_loop key newProps dc"

fun deleteProperties_loop :: "UID \<Rightarrow> string list \<Rightarrow> DatapointCache \<Rightarrow> fault + DatapointCache" where
  "deleteProperties_loop cacheKey [] dc = Inr dc"
| "deleteProperties_loop cacheKey (prop # rest) dc =
     (case nil_at (dimPropCache dc) cacheKey of
        None \<Rightarrow> Inl NilPointerDereference
      | Some dp \<Rightarrow>
          deleteProperties_loop cacheKey rest
            (dc\<lparr>dimPropCache :=
               AList.update cacheKey (Some (dp\<lparr>Properties := prop_delete (Properties dp) prop\<rparr>))
                 (dimPropCache dc)\<rparr>))"

definition deletePropertiesFromDimProps ::
  "DatapointCache \<Rightarrow> UID \<Rightarrow> string list \<Rightarrow> fault + DatapointCache" where
  "deletePropertiesFromDimProps dc key propsToDelete = deleteProperties_loop key propsToDelete dc"

text \<open>\<open>DeleteByKey\<close>, for a key of the type that \<open>HandleAdd\<close> returns.\<close>

definition DeleteByKey :: "DatapointCache \<Rightarrow> UID \<Rightarrow> fault + DatapointCache" where
  "DeleteByKey dc cacheKey =
     (case (if str_at (uidKindCache dc) cacheKey = ''Pod'' then Inr (handleDeletePod dc cacheKey)
            else if str_at (uidKindCache dc) cacheKey = ''Service''
            then handleDeleteService dc cacheKey
            else Inr dc) of
        Inl f \<Rightarrow> Inl f
      | Inr dc1 \<Rightarrow>
          Inr (dc1\<lparr>uidKindCache := AList.delete cacheKey (uidKindCache dc1),
                   dpCache := AList.delete cacheKey (dpCache dc1),
                   dimPropCache := AList.delete cacheKey (dimPropCache dc1)\<rparr>))"

definition HandleDelete :: "DatapointCache \<Rightarrow> Object \<Rightarrow> fault + UID option \<times> DatapointCache" where
  "HandleDelete dc oldObj =
     (case keyForObject oldObj of
        Inl err \<Rightarrow> Inr (None, dc)
      | Inr key \<Rightarrow>
          (case DeleteByKey dc key of
             Inl f \<Rightarrow> Inl f
           | Inr dc1 \<Rightarrow> Inr (Some key, dc1)))"

text \<open>
  The type switch of \<open>HandleAdd\<close>: the datapoints, the dimension properties, the kind and
  the cache after the handler of the kind; \<open>None\<close> is the \<open>default\<close> branch.
\<close>

fun HandleAdd_switch ::
  "Derive \<Rightarrow> DatapointCache \<Rightarrow> Object \<Rightarrow>
   (fault + nat list option \<times> DimProperties option \<times> string \<times> DatapointCache) option" where
  "HandleAdd_switch D dc (PodObj ob) =
     Some (case handleAddPod D dc ob of
             Inl f \<Rightarrow> Inl f
           | Inr (dps, dimProps, dc1) \<Rightarrow> Inr (dps, dimProps, ''Pod'', dc1))"
| "HandleAdd_switch D dc (NamespaceObj ob) =
     Some (Inr (datapointsForNamespace D ob, None, ''Namespace'', dc))"
| "HandleAdd_switch D dc (ReplicationControllerObj ob) =
     Some (Inr (datapointsForReplicationController D ob, None, ''ReplicationController'', dc))"
| "HandleAdd_switch D dc (DaemonSetObj ob) =
     Some (Inr (datapointsForDaemonSet D ob, None, ''DaemonSet'', dc))"
| "HandleAdd_switch D dc (DeploymentObj ob) =
     Some (Inr (datapointsForDeployment D ob, dimPropsForDeployment D ob, ''Deployment'', dc))"
| "HandleAdd_switch D dc (ReplicaSetObj ob) =
     Some (Inr (datapointsForReplicaSet D ob, dimPropsForReplicaSet D ob, ''ReplicaSet'', dc))"
| "HandleAdd_switch D dc (ResourceQuotaObj ob) =
     Some (Inr (datapointsForResourceQuota D ob, None, ''ResourceQuota'', dc))"
| "HandleAdd_switch D dc (NodeObj ob) =
     Some (Inr (datapointsForNode D ob (useNodeName dc), dimPropsForNode D ob (useNodeName dc),
                ''Node'', dc))"
| "HandleAdd_switch D dc (ServiceObj ob) =
     Some (case handleAddService dc ob of
             Inl f \<Rightarrow> Inl f
           | Inr dc1 \<Rightarrow> Inr (None, None, ''Service'', dc1))"
| "HandleAdd_switch D dc (OtherObj u) = None"

definition HandleAdd ::
  "Derive \<Rightarrow> DatapointCache \<Rightarrow> Object \<Rightarrow> fault + UID option \<times> DatapointCache" where
  "HandleAdd D dc newObj =
     (case HandleAdd_switch D dc newObj of
        None \<Rightarrow> Inr (None, dc)
      | Some (Inl f) \<Rightarrow> Inl f
      | Some (Inr (dps, dimProps, kind, dc1)) \<Rightarrow>
          (case keyForObject newObj of
             Inl err \<Rightarrow> Inr (None, dc1)
           | Inr key \<Rightarrow>
               (let dc2 = (if dps \<noteq> None then dc1\<lparr>dpCache := AList.update key dps (dpCache dc1)\<rparr>
                           else dc1);
                    dc3 = (if kind \<noteq> [] then dc2\<lparr>uidKindCache := AList.update key kind (uidKindCache dc2)\<rparr>
                           else dc2)
                in case dimProps of
                     None \<Rightarrow> Inr (Some key, dc3)
                   | Some dp \<Rightarrow>
                       (case addDimPropsToCache dc3 key dp of
                          Inl f \<Rightarrow> Inl f
                        | Inr dc4 \<Rightarrow> Inr (Some key, dc4)))))"

text \<open>Sequences of events on a cache; a panic ends the run.\<close>

datatype event = Add Object | Delete UID

fun dc_run :: "Derive \<Rightarrow> DatapointCache \<Rightarrow> event list \<Rightarrow> fault + DatapointCache" where
  "dc_run D dc [] = Inr dc"
| "dc_run D dc (Add ob # rest) =
     (case HandleAdd D dc ob of Inl f \<Rightarrow> Inl f | Inr (key, dc1) \<Rightarrow> dc_run D dc1 rest)"
| "dc_run D dc (Delete k # rest) =
     (case DeleteByKey dc k of Inl f \<Rightarrow> Inl f | Inr dc1 \<Rightarrow> dc_run D dc1 rest)"

text \<open>
  An example derivation: a pod gets no datapoints and the dimension
  \<open>kubernetes_pod_uid\<close> with empty property and tag maps; the other kinds get nothing.
  \<open>ex_cache\<close> is the cache after two pods labelled \<open>app=foo\<close> and the service selecting
  them were added.
\<close>

definition ex_derive :: Derive where
  "ex_derive =
     \<lparr>datapointsForPod = (\<lambda>pod. Some []),
      dimPropsForPod = (\<lambda>pod. Some \<lparr>Dimension = \<lparr>Name = ''kubernetes_pod_uid'', Value = PodUID pod\<rparr>,
                                      Properties = Some [], Tags = Some []\<rparr>),
      datapointsForNamespace = (\<lambda>ob. None),
      datapointsForReplicationController = (\<lambda>ob. None),
      datapointsForDaemonSet = (\<lambda>ob. None),
      datapointsForDeployment = (\<lambda>ob. None),
      dimPropsForDeployment = (\<lambda>ob. None),
      datapointsForReplicaSet = (\<lambda>ob. None),
      dimPropsForReplicaSet = (\<lambda>ob. None),
      datapointsForResourceQuota = (\<lambda>ob. None),
      datapointsForNode = (\<lambda>ob b. None),
      dimPropsForNode = (\<lambda>ob b. None)\<rparr>"

definition ex_events :: "event list" where
  "ex_events = [Add (PodObj ex_pod), Add (PodObj (ex_pod\<lparr>PodUID := ''p2'', PodName := ''pod2''\<rparr>)),
                Add (ServiceObj ex_svc)]"

definition ex_cache :: DatapointCache where
  "ex_cache =
     (case dc_run ex_derive (NewDatapointCache False) ex_events of
        Inl f \<Rightarrow> NewDatapointCache False
      | Inr dc \<Rightarrow> dc)"

section \<open>DatapointCache: deleting a service\<close>

text \<open>Whether the dimension properties cached for a key have a \<open>service\<close> property.\<close>

definition has_service_prop :: "DatapointCache \<Rightarrow> UID \<Rightarrow> bool" where
  "has_service_prop dc k =
     (case nil_at (dimPropCache dc) k of
        None \<Rightarrow> False
      | Some dp \<Rightarrow> (case Properties dp of None \<Rightarrow> False | Some m \<Rightarrow> map_of m ''service'' \<noteq> None))"

text \<open>The \<open>service\<close> property of the dimension properties cached for a key, if any.\<close>

definition service_prop :: "DatapointCache \<Rightarrow> UID \<Rightarrow> string option" where
  "service_prop dc k =
     (case nil_at (dimPropCache dc) k of
        None \<Rightarrow> None
      | Some dp \<Rightarrow> (case Properties dp of None \<Rightarrow> None | Some m \<Rightarrow> map_of m ''service''))"

text \<open>
  Events that leave a relation behind: pod \<open>p1\<close> (labels \<open>app=foo\<close>), service \<open>s1\<close>
  named \<open>svc1\<close> and service \<open>s2\<close> named \<open>svc2\<close>, both selecting \<open>app=foo\<close>, and
  then \<open>s2\<close> again with the selector \<open>app=bar\<close>.
\<close>

definition ex_stale_events :: "event list" where
  "ex_stale_events =
     [Add (PodObj ex_pod), Add (ServiceObj ex_svc),
      Add (ServiceObj (ex_svc\<lparr>SvcUID := ''s2'', SvcName := ''svc2''\<rparr>)),
      Add (ServiceObj (ex_svc\<lparr>SvcUID := ''s2'', SvcName := ''svc2'',
                             SpecSelector := Some [(''app'', ''bar'')]\<rparr>))]"

definition ex_stale_cache :: DatapointCache where
  "ex_stale_cache =
     (case dc_run ex_derive (NewDatapointCache False) ex_stale_events of
        Inl f \<Rightarrow> NewDatapointCache False
      | Inr dc \<Rightarrow> dc)"

section \<open>Reads\<close>

text \<open>
  \<open>AllDatapoints\<close> copies each cached datapoint with \<open>dp := *dc.dpCache[k][i]\<close> and
  returns \<open>&dp\<close>. Whether a caller can reach the cache through what it gets back
  depends on what the copy shares with the original, so datapoints live in an explicit
  store: structs by address, and the \<open>map[string]string\<close> objects of their
  \<open>Dimensions\<close> fields by address. \<open>datapoint.Datapoint\<close> (library
  github.com/signalfx/golib) has the fields below and a second map, \<open>Meta\<close>, which
  is shared in the same way and left out.
\<close>

record Datapoint =
  Metric :: string
  Dimensions :: "nat option"
  DpValue :: int
  MetricType :: nat
  Timestamp :: int

record Store =
  structs :: "(nat, Datapoint) gomap"
  stringMaps :: "(nat, (string, string) gomap) gomap"

text \<open>A new address: one above every address in use.\<close>

definition fresh :: "(nat, 'v) gomap \<Rightarrow> nat" where
  "fresh m = fold (\<lambda>a n. max (Suc a) n) (map fst m) 0"

text \<open>
  The inner loop over one slice: dereferencing a pointer that is \<open>nil\<close> panics;
  otherwise the struct is copied to a new address, field by field, so that the copy
  holds the same \<open>Dimensions\<close> reference.
\<close>

fun copy_loop :: "nat list \<Rightarrow> nat list \<times> Store \<Rightarrow> fault + nat list \<times> Store" where
  "copy_loop [] acc = Inr acc"
| "copy_loop (p # rest) (dps, st) =
     (case map_of (structs st) p of
        None \<Rightarrow> Inl NilPointerDereference
      | Some dp \<Rightarrow>
          copy_loop rest
            (dps @ [fresh (structs st)],
             st\<lparr>structs := AList.update (fresh (structs st)) dp (structs st)\<rparr>))"

fun AllDatapoints_loop ::
  "(UID \<times> nat list option) list \<Rightarrow> nat list \<times> Store \<Rightarrow> fault + nat list \<times> Store" where
  "AllDatapoints_loop [] acc = Inr acc"
| "AllDatapoints_loop ((k, slice) # rest) acc =
     (case slice of
        None \<Rightarrow> AllDatapoints_loop rest acc
      | Some ps \<Rightarrow>
          (case copy_loop ps acc of
             Inl f \<Rightarrow> Inl f
           | Inr acc1 \<Rightarrow> AllDatapoints_loop rest acc1))"

definition AllDatapoints :: "Store \<Rightarrow> DatapointCache \<Rightarrow> fault + nat list \<times> Store" where
  "AllDatapoints st dc = AllDatapoints_loop (dpCache dc) ([], st)"

text \<open>
  \<open>DimProperties.Copy\<close> builds a new struct with two new maps filled entry by entry
  (a \<open>nil\<close> map becomes an empty one), and \<open>AllDimProperties\<close> returns the copies of
  the records that are not \<open>nil\<close>.
\<close>

definition Copy :: "DimProperties \<Rightarrow> DimProperties" where
  "Copy dp =
     \<lparr>Dimension = \<lparr>Name = Name (Dimension dp), Value = Value (Dimension dp)\<rparr>,
      Properties = Some (case Properties dp of
                           None \<Rightarrow> []
                         | Some m \<Rightarrow> fold (\<lambda>(k, v) c. AList.update k v c) m []),
      Tags = Some (case Tags dp of
                     None \<Rightarrow> []
                   | Some m \<Rightarrow> fold (\<lambda>(k, v) c. AList.update k v c) m [])\<rparr>"

definition AllDimProperties :: "DatapointCache \<Rightarrow> DimProperties list" where
  "AllDimProperties dc =
     List.map_filter (\<lambda>(k, v). map_option Copy v) (dimPropCache dc)"

text \<open>
  What a caller does with a returned datapoint \<open>p\<close>: the write
  \<open>p.Dimensions[k] = v\<close>, and reading its metric and dimensions.
\<close>

definition write_dimension :: "Store \<Rightarrow> nat \<Rightarrow> string \<Rightarrow> string \<Rightarrow> fault + Store" where
  "write_dimension st p k v =
     (case map_of (structs st) p of
        None \<Rightarrow> Inl NilPointerDereference
      | Some dp \<Rightarrow>
          (case Dimensions dp of
             None \<Rightarrow> Inl AssignmentToEntryInNilMap
           | Some a \<Rightarrow>
               (case map_of (stringMaps st) a of
                  None \<Rightarrow> Inl AssignmentToEntryInNilMap
                | Some m \<Rightarrow>
                    Inr (st\<lparr>stringMaps := AList.update a (AList.update k v m) (stringMaps st)\<rparr>))))"

definition read_datapoint :: "Store \<Rightarrow> nat \<Rightarrow> (string \<times> (string, string) gomap option) option" where
  "read_datapoint st p =
     (case map_of (structs st) p of
        None \<Rightarrow> None
      | Some dp \<Rightarrow>
          Some (Metric dp, case Dimensions dp of None \<Rightarrow> None | Some a \<Rightarrow> map_of (stringMaps st) a))"

text \<open>What a call of \<open>AllDatapoints\<close> shows its caller.\<close>

definition shown ::
  "Store \<Rightarrow> DatapointCache \<Rightarrow> (string \<times> (string, string) gomap option) option list option" where
  "shown st dc =
     (case AllDatapoints st dc of
        Inl f \<Rightarrow> None
      | Inr (ps, st1) \<Rightarrow> Some (map (read_datapoint st1) ps))"

text \<open>
  A first call, then the caller's write to the dimension map of the first datapoint
  returned, then what a second call shows.
\<close>

definition shown_after_write ::
  "Store \<Rightarrow> DatapointCache \<Rightarrow> string \<Rightarrow> string \<Rightarrow>
   (string \<times> (string, string) gomap option) option list option" where
  "shown_after_write st dc k v =
     (case AllDatapoints st dc of
        Inl f \<Rightarrow> None
      | Inr (ps, st1) \<Rightarrow>
          (case ps of
             [] \<Rightarrow> None
           | p # rest \<Rightarrow>
               (case write_dimension st1 p k v of
                  Inl f \<Rightarrow> None
                | Inr st2 \<Rightarrow> shown st2 dc)))"

text \<open>A store with one datapoint of pod \<open>p1\<close>, and the cache that holds it.\<close>

definition ex_store :: Store where
  "ex_store =
     \<lparr>structs = [(0, \<lparr>Metric = ''kubernetes.pod_phase'', Dimensions = Some 0, DpValue = 2,
                       MetricType = 0, Timestamp = 0\<rparr>)],
      stringMaps = [(0, [(''kubernetes_pod_uid'', ''p1'')])]\<rparr>"

definition ex_dp_cache :: DatapointCache where
  "ex_dp_cache = (NewDatapointCache False)\<lparr>dpCache := [(''p1'', Some [0])]\<rparr>"

chapter \<open>Properties\<close>

section \<open>Join index: symmetry\<close>

lemma members_dom:
  "members idx k = (case map_of idx k of None \<Rightarrow> {} | Some s \<Rightarrow> dom (map_of s))"
  by (simp add: members_def dom_map_of_conv_image_fst split: option.splits)

lemma members_make_if_absent [simp]: "members (make_if_absent idx k) k' = members idx k'"
  by (simp add: members_dom make_if_absent_def update_conv' split: option.splits)

lemma map_of_make_if_absent_same: "map_of (make_if_absent idx k) k \<noteq> None"
  by (simp add: make_if_absent_def update_conv' split: option.splits)

lemma members_set_true:
  "map_of idx k \<noteq> None \<Longrightarrow>
   members (set_true idx k x) k' = (if k' = k then insert x (members idx k) else members idx k')"
  by (auto simp: members_dom set_true_def update_conv' split: option.splits)

lemma members_delete_in:
  "members (delete_in idx k x) k' = (if k' = k then members idx k - {x} else members idx k')"
  by (auto simp: members_dom delete_in_def update_conv' delete_conv' split: option.splits)

lemma members_delete:
  "members (AList.delete k idx) k' = (if k' = k then {} else members idx k')"
  by (simp add: members_dom delete_conv')

lemma svcs_of_relate:
  "svcs_of (relate p s psc) P = (if P = p then insert s (svcs_of psc p) else svcs_of psc P)"
  by (simp add: svcs_of_def relate_def Let_def members_set_true map_of_make_if_absent_same)

lemma pods_of_relate:
  "pods_of (relate p s psc) S = (if S = s then insert p (pods_of psc s) else pods_of psc S)"
  by (simp add: pods_of_def relate_def Let_def members_set_true map_of_make_if_absent_same)

lemma join_sym_relate: "join_sym psc \<Longrightarrow> join_sym (relate p s psc)"
  by (auto simp: join_sym_def svcs_of_relate pods_of_relate)

lemma join_sym_refreshByService_loop:
  "join_sym (snd acc) \<Longrightarrow> join_sym (snd (refreshByService_loop svc sel es acc))"
  by (induction svc sel es acc rule: refreshByService_loop.induct)
     (simp_all add: join_sym_relate)

lemma join_sym_refreshByPod_loop:
  "join_sym (snd acc) \<Longrightarrow> join_sym (snd (refreshByPod_loop pod ls es acc))"
  by (induction pod ls es acc rule: refreshByPod_loop.induct)
     (simp_all add: join_sym_relate)

lemma join_sym_fields:
  "podSvcUIDCache psc' = podSvcUIDCache psc \<Longrightarrow> svcPodUIDCache psc' = svcPodUIDCache psc \<Longrightarrow>
   join_sym psc' = join_sym psc"
  by (simp add: join_sym_def svcs_of_def pods_of_def)

lemma join_sym_refreshCacheByService:
  "join_sym psc \<Longrightarrow> join_sym (snd (refreshCacheByService psc svc))"
  by (simp add: refreshCacheByService_def join_sym_refreshByService_loop split: option.splits)

lemma join_sym_refreshCacheByPod:
  "join_sym psc \<Longrightarrow> join_sym (snd (refreshCacheByPod psc pod))"
  by (simp add: refreshCacheByPod_def join_sym_refreshByPod_loop split: option.splits)

lemma join_sym_SetService:
  assumes "join_sym psc"
  shows "join_sym (SetService psc svc)"
proof -
  have "join_sym (psc\<lparr>svcUIDNamespaceCache := a, svcUIDSelectorCache := b,
                       svcUIDNameCache := c\<rparr>)" for a b c
    using assms
      join_sym_fields [of "psc\<lparr>svcUIDNamespaceCache := a, svcUIDSelectorCache := b,
                                 svcUIDNameCache := c\<rparr>" psc]
    by simp
  then show ?thesis
    using assms by (simp add: SetService_def Let_def join_sym_refreshCacheByService)
qed

lemma join_sym_SetPod:
  assumes "join_sym psc"
  shows "join_sym (SetPod psc pod)"
proof -
  have "join_sym (psc\<lparr>podUIDNamespaceCache := a, podUIDLabelCache := b\<rparr>)" for a b
    using assms
      join_sym_fields [of "psc\<lparr>podUIDNamespaceCache := a, podUIDLabelCache := b\<rparr>" psc]
    by simp
  then show ?thesis
    using assms by (simp add: SetPod_def Let_def join_sym_refreshCacheByPod)
qed

lemma members_fold_delete_in:
  "members (fold (\<lambda>k idx. delete_in idx k x) ks idx) k' =
     (if k' \<in> set ks then members idx k' - {x} else members idx k')"
  by (induction ks arbitrary: idx) (auto simp: members_delete_in)

lemma svcs_of_DeleteServiceFromCache:
  "svcs_of (DeleteServiceFromCache psc s) P =
     (if P \<in> pods_of psc s then svcs_of psc P - {s} else svcs_of psc P)"
proof (cases "map_of (svcPodUIDCache psc) s")
  case None
  then show ?thesis
    by (simp add: DeleteServiceFromCache_def svcs_of_def pods_of_def members_def)
next
  case (Some podsSet)
  then have "pods_of psc s = set (map fst podsSet)"
    by (simp add: pods_of_def members_def)
  with Some show ?thesis
    by (simp add: DeleteServiceFromCache_def svcs_of_def members_fold_delete_in)
qed

lemma pods_of_DeleteServiceFromCache:
  "pods_of (DeleteServiceFromCache psc s) S = (if S = s then {} else pods_of psc S)"
  by (auto simp: DeleteServiceFromCache_def Let_def pods_of_def members_delete
        split: option.splits)
     (auto simp: members_dom)

lemma svcs_of_DeletePodFromCache:
  "svcs_of (DeletePodFromCache psc p) P = (if P = p then {} else svcs_of psc P)"
  by (auto simp: DeletePodFromCache_def Let_def svcs_of_def members_delete
        split: option.splits)
     (auto simp: members_dom)

lemma pods_of_DeletePodFromCache:
  "pods_of (DeletePodFromCache psc p) S =
     (if S \<in> svcs_of psc p then pods_of psc S - {p} else pods_of psc S)"
proof (cases "map_of (podSvcUIDCache psc) p")
  case None
  then show ?thesis
    by (simp add: DeletePodFromCache_def svcs_of_def pods_of_def members_def)
next
  case (Some servicesSet)
  then have "svcs_of psc p = set (map fst servicesSet)"
    by (simp add: svcs_of_def members_def)
  with Some show ?thesis
    by (simp add: DeletePodFromCache_def pods_of_def members_fold_delete_in)
qed

lemma join_sym_DeleteServiceFromCache:
  "join_sym psc \<Longrightarrow> join_sym (DeleteServiceFromCache psc s)"
  by (auto simp: join_sym_def svcs_of_DeleteServiceFromCache pods_of_DeleteServiceFromCache)

lemma join_sym_DeletePodFromCache:
  "join_sym psc \<Longrightarrow> join_sym (DeletePodFromCache psc p)"
  by (auto simp: join_sym_def svcs_of_DeletePodFromCache pods_of_DeletePodFromCache)

lemma join_sym_New: "join_sym NewPodServiceCache"
  by (simp add: join_sym_def svcs_of_def pods_of_def members_dom NewPodServiceCache_def)

lemma join_sym_psc_step: "join_sym psc \<Longrightarrow> join_sym (psc_step psc c)"
  by (cases c)
     (simp_all add: join_sym_SetPod join_sym_SetService join_sym_DeletePodFromCache
        join_sym_DeleteServiceFromCache)

lemma join_sym_foldl: "join_sym psc \<Longrightarrow> join_sym (foldl psc_step psc calls)"
  by (induction calls arbitrary: psc) (simp_all add: join_sym_psc_step)

lemma join_sym_psc_run: "join_sym (psc_run calls)"
  by (simp add: psc_run_def join_sym_foldl join_sym_New)

text \<open>
  C1. Join symmetry: in every cache reached from a fresh \<open>PodServiceCache\<close> by a
  sequence of \<open>SetPod\<close>, \<open>SetService\<close>, \<open>DeletePodFromCache\<close> and
  \<open>DeleteServiceFromCache\<close>, a service key \<open>S\<close> is in \<open>podSvcUIDCache[P]\<close> exactly
  when the pod key \<open>P\<close> is in \<open>svcPodUIDCache[S]\<close>.
\<close>

theorem join_symmetry:
  "S \<in> svcs_of (psc_run calls) P \<longleftrightarrow> P \<in> pods_of (psc_run calls) S"
  using join_sym_psc_run [of calls] by (simp add: join_sym_def)

theorem join_symmetry_witness:
  "''s1'' \<in> svcs_of (psc_run [CallSetPod ex_pod, CallSetService ex_svc]) ''p1''
   \<and> ''p1'' \<in> pods_of (psc_run [CallSetPod ex_pod, CallSetService ex_svc]) ''s1''"
proof -
  have "''p1'' \<in> pods_of (psc_run [CallSetPod ex_pod, CallSetService ex_svc]) ''s1''"
    by code_simp
  then show ?thesis
    using join_symmetry [of "''s1''" "[CallSetPod ex_pod, CallSetService ex_svc]" "''p1''"]
    by simp
qed

section \<open>Join index: what an upsert does to the membership sets\<close>

lemma relate_fields [simp]:
  "svcUIDNamespaceCache (relate p s psc) = svcUIDNamespaceCache psc"
  "svcUIDNameCache (relate p s psc) = svcUIDNameCache psc"
  "svcUIDSelectorCache (relate p s psc) = svcUIDSelectorCache psc"
  "podUIDLabelCache (relate p s psc) = podUIDLabelCache psc"
  "podUIDNamespaceCache (relate p s psc) = podUIDNamespaceCache psc"
  by (simp_all add: relate_def Let_def)

lemma refreshByService_loop_fields:
  "svcUIDNamespaceCache (snd (refreshByService_loop svc sel es acc)) = svcUIDNamespaceCache (snd acc)
   \<and> svcUIDNameCache (snd (refreshByService_loop svc sel es acc)) = svcUIDNameCache (snd acc)
   \<and> svcUIDSelectorCache (snd (refreshByService_loop svc sel es acc)) = svcUIDSelectorCache (snd acc)
   \<and> podUIDLabelCache (snd (refreshByService_loop svc sel es acc)) = podUIDLabelCache (snd acc)
   \<and> podUIDNamespaceCache (snd (refreshByService_loop svc sel es acc)) = podUIDNamespaceCache (snd acc)"
  by (induction svc sel es acc rule: refreshByService_loop.induct) simp_all

lemma refreshByPod_loop_fields:
  "svcUIDNamespaceCache (snd (refreshByPod_loop pod ls es acc)) = svcUIDNamespaceCache (snd acc)
   \<and> svcUIDNameCache (snd (refreshByPod_loop pod ls es acc)) = svcUIDNameCache (snd acc)
   \<and> svcUIDSelectorCache (snd (refreshByPod_loop pod ls es acc)) = svcUIDSelectorCache (snd acc)
   \<and> podUIDLabelCache (snd (refreshByPod_loop pod ls es acc)) = podUIDLabelCache (snd acc)
   \<and> podUIDNamespaceCache (snd (refreshByPod_loop pod ls es acc)) = podUIDNamespaceCache (snd acc)"
  by (induction pod ls es acc rule: refreshByPod_loop.induct) simp_all

lemma pods_of_refreshByService_loop:
  "pods_of (snd (refreshByService_loop svc sel es (pods, psc))) S =
     (if S = SvcUID svc
      then pods_of psc S \<union>
           set (map fst (filter (\<lambda>(p, ls). Matches sel ls \<and>
                  str_at (podUIDNamespaceCache psc) p = SvcNamespace svc) es))
      else pods_of psc S)"
proof (induction es arbitrary: pods psc S)
  case Nil
  then show ?case by simp
next
  case (Cons e es)
  obtain p ls where e: "e = (p, ls)" by (cases e)
  show ?case
    by (auto simp: e Cons.IH pods_of_relate)
qed

lemma svcs_of_refreshByPod_loop:
  "svcs_of (snd (refreshByPod_loop pod ls es (svcs, psc))) P =
     (if P = PodUID pod
      then svcs_of psc P \<union>
           set (map fst (filter (\<lambda>(s, sel). Matches sel ls \<and>
                  str_at (svcUIDNamespaceCache psc) s = PodNamespace pod) es))
      else svcs_of psc P)"
proof (induction es arbitrary: svcs psc P)
  case Nil
  then show ?case by simp
next
  case (Cons e es)
  obtain s sel where e: "e = (s, sel)" by (cases e)
  show ?case
    by (auto simp: e Cons.IH svcs_of_relate)
qed

lemma SetService_changed:
  assumes "service_changed psc svc"
  shows "SetService psc svc =
     snd (refreshByService_loop svc (AsSelectorPreValidated (SpecSelector svc)) (podUIDLabelCache psc)
       ([], psc\<lparr>svcUIDNamespaceCache :=
                    AList.update (SvcUID svc) (SvcNamespace svc) (svcUIDNamespaceCache psc),
                  svcUIDSelectorCache :=
                    AList.update (SvcUID svc) (AsSelectorPreValidated (SpecSelector svc))
                      (svcUIDSelectorCache psc),
                  svcUIDNameCache :=
                    AList.update (SvcUID svc) (SvcName svc) (svcUIDNameCache psc)\<rparr>))"
proof -
  have "\<not> Empty (AsSelectorPreValidated (SpecSelector svc))"
    using assms by (simp add: service_changed_def)
  moreover have
    "\<not> (map_of (svcUIDSelectorCache psc) (SvcUID svc) = Some (AsSelectorPreValidated (SpecSelector svc))
        \<and> str_at (svcUIDNameCache psc) (SvcUID svc) = SvcName svc
        \<and> str_at (svcUIDNamespaceCache psc) (SvcUID svc) = SvcNamespace svc)"
    using assms by (simp add: service_changed_def)
  ultimately show ?thesis
    by (auto simp: SetService_def Let_def refreshCacheByService_def update_conv')
qed

lemma SetPod_changed:
  assumes "pod_changed psc pod"
  shows "SetPod psc pod =
     snd (refreshByPod_loop pod (Labels pod) (svcUIDSelectorCache psc)
       ([], psc\<lparr>podUIDNamespaceCache :=
                    AList.update (PodUID pod) (PodNamespace pod) (podUIDNamespaceCache psc),
                  podUIDLabelCache :=
                    AList.update (PodUID pod) (Labels pod) (podUIDLabelCache psc)\<rparr>))"
  using assms
  by (auto simp: pod_changed_def SetPod_def Let_def refreshCacheByPod_def update_conv')

lemma pods_of_SetService_changed:
  assumes "service_changed psc svc"
  shows "pods_of (SetService psc svc) (SvcUID svc) =
     pods_of psc (SvcUID svc) \<union>
     set (matching_pods (SetService psc svc) (AsSelectorPreValidated (SpecSelector svc))
            (SvcNamespace svc))"
proof -
  let ?sel = "AsSelectorPreValidated (SpecSelector svc)"
  let ?psc1 = "psc\<lparr>svcUIDNamespaceCache :=
                    AList.update (SvcUID svc) (SvcNamespace svc) (svcUIDNamespaceCache psc),
                  svcUIDSelectorCache := AList.update (SvcUID svc) ?sel (svcUIDSelectorCache psc),
                  svcUIDNameCache :=
                    AList.update (SvcUID svc) (SvcName svc) (svcUIDNameCache psc)\<rparr>"
  have run: "SetService psc svc =
      snd (refreshByService_loop svc ?sel (podUIDLabelCache psc) ([], ?psc1))"
    using SetService_changed [OF assms] .
  have fields: "podUIDLabelCache (SetService psc svc) = podUIDLabelCache psc"
    "podUIDNamespaceCache (SetService psc svc) = podUIDNamespaceCache psc"
    using refreshByService_loop_fields [of svc ?sel "podUIDLabelCache psc" "([], ?psc1)"]
    by (simp_all add: run)
  have "pods_of ?psc1 (SvcUID svc) = pods_of psc (SvcUID svc)"
    by (simp add: pods_of_def)
  then show ?thesis
    using pods_of_refreshByService_loop [of svc ?sel "podUIDLabelCache psc" "[]" ?psc1 "SvcUID svc"]
    by (simp add: matching_pods_def fields) (simp add: run)
qed

lemma svcs_of_SetPod_changed:
  assumes "pod_changed psc pod"
  shows "svcs_of (SetPod psc pod) (PodUID pod) =
     svcs_of psc (PodUID pod) \<union>
     set (matching_services (SetPod psc pod) (Labels pod) (PodNamespace pod))"
proof -
  let ?psc1 = "psc\<lparr>podUIDNamespaceCache :=
                    AList.update (PodUID pod) (PodNamespace pod) (podUIDNamespaceCache psc),
                  podUIDLabelCache :=
                    AList.update (PodUID pod) (Labels pod) (podUIDLabelCache psc)\<rparr>"
  have run: "SetPod psc pod =
      snd (refreshByPod_loop pod (Labels pod) (svcUIDSelectorCache psc) ([], ?psc1))"
    using SetPod_changed [OF assms] .
  have fields: "svcUIDSelectorCache (SetPod psc pod) = svcUIDSelectorCache psc"
    "svcUIDNamespaceCache (SetPod psc pod) = svcUIDNamespaceCache psc"
    using refreshByPod_loop_fields [of pod "Labels pod" "svcUIDSelectorCache psc" "([], ?psc1)"]
    by (simp_all add: run)
  have "svcs_of ?psc1 (PodUID pod) = svcs_of psc (PodUID pod)"
    by (simp add: svcs_of_def)
  then show ?thesis
    using svcs_of_refreshByPod_loop
      [of pod "Labels pod" "svcUIDSelectorCache psc" "[]" ?psc1 "PodUID pod"]
    by (simp add: matching_services_def fields) (simp add: run)
qed

lemma distinct_keys_psc_step: "distinct_keys psc \<Longrightarrow> distinct_keys (psc_step psc c)"
proof (cases c)
  case (CallSetPod pod)
  assume d: "distinct_keys psc"
  show ?thesis
  proof (cases "pod_changed psc pod")
    case True
    show ?thesis
      using d refreshByPod_loop_fields
        [of pod "Labels pod" "svcUIDSelectorCache psc"
          "([], psc\<lparr>podUIDNamespaceCache :=
                     AList.update (PodUID pod) (PodNamespace pod) (podUIDNamespaceCache psc),
                   podUIDLabelCache :=
                     AList.update (PodUID pod) (Labels pod) (podUIDLabelCache psc)\<rparr>)"]
      by (simp add: CallSetPod SetPod_changed [OF True] distinct_keys_def distinct_update)
  next
    case False
    then have "SetPod psc pod = psc"
      by (auto simp: pod_changed_def SetPod_def Let_def)
    with d show ?thesis by (simp add: CallSetPod)
  qed
next
  case (CallSetService svc)
  assume d: "distinct_keys psc"
  show ?thesis
  proof (cases "service_changed psc svc")
    case True
    show ?thesis
      using d refreshByService_loop_fields
        [of svc "AsSelectorPreValidated (SpecSelector svc)" "podUIDLabelCache psc"
          "([], psc\<lparr>svcUIDNamespaceCache :=
                     AList.update (SvcUID svc) (SvcNamespace svc) (svcUIDNamespaceCache psc),
                   svcUIDSelectorCache :=
                     AList.update (SvcUID svc) (AsSelectorPreValidated (SpecSelector svc))
                       (svcUIDSelectorCache psc),
                   svcUIDNameCache :=
                     AList.update (SvcUID svc) (SvcName svc) (svcUIDNameCache psc)\<rparr>)"]
      by (simp add: CallSetService SetService_changed [OF True] distinct_keys_def distinct_update)
  next
    case False
    then have "SetService psc svc = psc"
      by (auto simp: service_changed_def SetService_def Let_def)
    with d show ?thesis by (simp add: CallSetService)
  qed
next
  case (CallDeletePod k)
  assume "distinct_keys psc"
  then show ?thesis
    by (simp add: CallDeletePod DeletePodFromCache_def Let_def distinct_keys_def distinct_delete
          split: option.splits)
next
  case (CallDeleteService k)
  assume "distinct_keys psc"
  then show ?thesis
    by (simp add: CallDeleteService DeleteServiceFromCache_def Let_def distinct_keys_def
          distinct_delete split: option.splits)
qed

lemma distinct_keys_foldl: "distinct_keys psc \<Longrightarrow> distinct_keys (foldl psc_step psc calls)"
  by (induction calls arbitrary: psc) (simp_all add: distinct_keys_psc_step)

lemma distinct_keys_psc_run: "distinct_keys (psc_run calls)"
proof -
  have "distinct_keys NewPodServiceCache"
    by (simp add: distinct_keys_def NewPodServiceCache_def)
  then show ?thesis
    unfolding psc_run_def by (rule distinct_keys_foldl)
qed

lemma set_matching_pods:
  "distinct_keys psc \<Longrightarrow>
   set (matching_pods psc sel ns) =
     {p. \<exists>ls. map_of (podUIDLabelCache psc) p = Some ls \<and> Matches sel ls
            \<and> str_at (podUIDNamespaceCache psc) p = ns}"
  by (force simp: matching_pods_def distinct_keys_def)

lemma set_matching_services:
  "distinct_keys psc \<Longrightarrow>
   set (matching_services psc ls ns) =
     {s. \<exists>sel. map_of (svcUIDSelectorCache psc) s = Some sel \<and> Matches sel ls
            \<and> str_at (svcUIDNamespaceCache psc) s = ns}"
  by (force simp: matching_services_def distinct_keys_def)

text \<open>
  C2 does not hold of the code. After a \<open>SetService\<close> with a changed selector the set
  of the service should be exactly the cached pods that the new selector matches in the
  namespace of the service. The code only adds relations and never clears the prior
  membership: with pod \<open>p1\<close> (labels \<open>app=foo\<close>) joined to service \<open>s1\<close> (selector
  \<open>app=foo\<close>), a \<open>SetService\<close> of \<open>s1\<close> with the changed selector \<open>app=bar\<close> is
  not a no-op and leaves \<open>p1\<close> in the set of \<open>s1\<close>, although no cached pod matches the
  new selector.
\<close>

theorem upsert_keeps_stale_relation:
  "service_changed ex_joined (ex_svc\<lparr>SpecSelector := Some [(''app'', ''bar'')]\<rparr>)
   \<and> ''p1'' \<in> pods_of (SetService ex_joined (ex_svc\<lparr>SpecSelector := Some [(''app'', ''bar'')]\<rparr>)) ''s1''
   \<and> matching_pods (SetService ex_joined (ex_svc\<lparr>SpecSelector := Some [(''app'', ''bar'')]\<rparr>))
        (AsSelectorPreValidated (Some [(''app'', ''bar'')])) ''ns'' = []"
  by code_simp

section \<open>Join index: services with an empty selector\<close>

text \<open>
  C3, as the spec states it, fails where a service that had a selector is updated to an
  empty one: \<open>SetService\<close> returns at once on an empty selector and the cache keeps the
  earlier selector and relations of the service.
\<close>

theorem emptied_selector_stays_joined:
  "Empty (AsSelectorPreValidated (SpecSelector (ex_svc\<lparr>SpecSelector := None\<rparr>)))
   \<and> ''s1'' \<in> svcs_of
        (psc_run [CallSetPod ex_pod, CallSetService ex_svc,
                  CallSetService (ex_svc\<lparr>SpecSelector := None\<rparr>)]) ''p1''"
  by code_simp

lemma svcs_of_refreshByService_loop_subset:
  "S \<in> svcs_of (snd (refreshByService_loop svc sel es acc)) P \<Longrightarrow>
   S = SvcUID svc \<or> S \<in> svcs_of (snd acc) P"
  by (induction svc sel es acc arbitrary: rule: refreshByService_loop.induct)
     (auto simp: svcs_of_relate split: if_splits)

lemma unselected_SetService:
  assumes "unselected S psc" and "sets_no_selector S (CallSetService svc)"
  shows "unselected S (SetService psc svc)"
proof (cases "service_changed psc svc")
  case False
  then have "SetService psc svc = psc"
    by (auto simp: service_changed_def SetService_def Let_def)
  with assms show ?thesis by simp
next
  case True
  let ?sel = "AsSelectorPreValidated (SpecSelector svc)"
  let ?psc1 = "psc\<lparr>svcUIDNamespaceCache :=
                    AList.update (SvcUID svc) (SvcNamespace svc) (svcUIDNamespaceCache psc),
                  svcUIDSelectorCache := AList.update (SvcUID svc) ?sel (svcUIDSelectorCache psc),
                  svcUIDNameCache :=
                    AList.update (SvcUID svc) (SvcName svc) (svcUIDNameCache psc)\<rparr>"
  have run: "SetService psc svc =
      snd (refreshByService_loop svc ?sel (podUIDLabelCache psc) ([], ?psc1))"
    using SetService_changed [OF True] .
  from True assms(2) have ne: "SvcUID svc \<noteq> S"
    by (auto simp: service_changed_def)
  have "svcUIDSelectorCache (SetService psc svc) = svcUIDSelectorCache ?psc1"
    using refreshByService_loop_fields [of svc ?sel "podUIDLabelCache psc" "([], ?psc1)"]
    by (simp add: run)
  then have sel: "map_of (svcUIDSelectorCache (SetService psc svc)) S = None"
    using assms(1) ne by (simp add: unselected_def update_conv')
  have "S \<notin> svcs_of (SetService psc svc) P" for P
  proof
    assume "S \<in> svcs_of (SetService psc svc) P"
    then have "S \<in> svcs_of ?psc1 P"
      using svcs_of_refreshByService_loop_subset
        [of S svc ?sel "podUIDLabelCache psc" "([], ?psc1)" P] ne
      by (simp add: run)
    then show False
      using assms(1) by (simp add: unselected_def svcs_of_def)
  qed
  with sel show ?thesis by (simp add: unselected_def)
qed

lemma unselected_SetPod:
  assumes "unselected S psc"
  shows "unselected S (SetPod psc pod)"
proof (cases "pod_changed psc pod")
  case False
  then have "SetPod psc pod = psc"
    by (auto simp: pod_changed_def SetPod_def Let_def)
  with assms show ?thesis by simp
next
  case True
  let ?psc1 = "psc\<lparr>podUIDNamespaceCache :=
                    AList.update (PodUID pod) (PodNamespace pod) (podUIDNamespaceCache psc),
                  podUIDLabelCache :=
                    AList.update (PodUID pod) (Labels pod) (podUIDLabelCache psc)\<rparr>"
  have run: "SetPod psc pod =
      snd (refreshByPod_loop pod (Labels pod) (svcUIDSelectorCache psc) ([], ?psc1))"
    using SetPod_changed [OF True] .
  have "svcUIDSelectorCache (SetPod psc pod) = svcUIDSelectorCache ?psc1"
    using refreshByPod_loop_fields [of pod "Labels pod" "svcUIDSelectorCache psc" "([], ?psc1)"]
    by (simp add: run)
  then have sel: "map_of (svcUIDSelectorCache (SetPod psc pod)) S = None"
    using assms by (simp add: unselected_def)
  have notkey: "S \<notin> fst ` set (svcUIDSelectorCache psc)"
    using assms by (simp add: unselected_def map_of_eq_None_iff)
  have old: "S \<notin> svcs_of ?psc1 P" for P
    using assms by (simp add: unselected_def svcs_of_def)
  have "S \<notin> svcs_of (SetPod psc pod) P" for P
    using svcs_of_refreshByPod_loop
      [of pod "Labels pod" "svcUIDSelectorCache psc" "[]" ?psc1 P] notkey old [of P]
    by (auto simp: run split: if_splits)
  with sel show ?thesis by (simp add: unselected_def)
qed

lemma unselected_DeletePodFromCache:
  "unselected S psc \<Longrightarrow> unselected S (DeletePodFromCache psc k)"
  by (auto simp: unselected_def svcs_of_DeletePodFromCache)
     (simp add: DeletePodFromCache_def Let_def split: option.splits)

lemma unselected_DeleteServiceFromCache:
  "unselected S psc \<Longrightarrow> unselected S (DeleteServiceFromCache psc k)"
  by (auto simp: unselected_def svcs_of_DeleteServiceFromCache)
     (simp add: DeleteServiceFromCache_def Let_def delete_conv' split: option.splits)

lemma unselected_psc_step:
  "unselected S psc \<Longrightarrow> sets_no_selector S c \<Longrightarrow> unselected S (psc_step psc c)"
  by (cases c)
     (simp_all add: unselected_SetPod unselected_SetService unselected_DeletePodFromCache
        unselected_DeleteServiceFromCache del: sets_no_selector.simps)

lemma unselected_foldl:
  "unselected S psc \<Longrightarrow> list_all (sets_no_selector S) calls \<Longrightarrow>
   unselected S (foldl psc_step psc calls)"
  by (induction calls arbitrary: psc) (simp_all add: unselected_psc_step)

lemma unselected_New: "unselected S NewPodServiceCache"
  by (simp add: unselected_def svcs_of_def members_def NewPodServiceCache_def)

text \<open>
  C3, amended. In a sequence of calls on a fresh cache in which every \<open>SetService\<close>
  of the service \<open>S\<close> carries an empty selector, \<open>S\<close> never appears in the matched
  set of any pod, whatever the labels of the pods.
\<close>

theorem empty_selector_exclusion:
  "list_all (sets_no_selector S) calls \<Longrightarrow> S \<notin> svcs_of (psc_run calls) P"
  using unselected_foldl [OF unselected_New, of S calls]
  by (simp add: psc_run_def unselected_def)

theorem empty_selector_exclusion_witness:
  "list_all (sets_no_selector ''s1'')
     [CallSetPod ex_pod, CallSetService (ex_svc\<lparr>SpecSelector := None\<rparr>),
      CallSetService (ex_svc\<lparr>SvcUID := ''s2''\<rparr>),
      CallSetService (ex_svc\<lparr>SpecSelector := Some []\<rparr>)]
   \<and> ''s1'' \<notin> svcs_of
        (psc_run [CallSetPod ex_pod, CallSetService (ex_svc\<lparr>SpecSelector := None\<rparr>),
                  CallSetService (ex_svc\<lparr>SvcUID := ''s2''\<rparr>),
                  CallSetService (ex_svc\<lparr>SpecSelector := Some []\<rparr>)]) ''p1''"
proof -
  have h: "list_all (sets_no_selector ''s1'')
     [CallSetPod ex_pod, CallSetService (ex_svc\<lparr>SpecSelector := None\<rparr>),
      CallSetService (ex_svc\<lparr>SvcUID := ''s2''\<rparr>),
      CallSetService (ex_svc\<lparr>SpecSelector := Some []\<rparr>)]"
    by code_simp
  show ?thesis
    using h empty_selector_exclusion [OF h, of "''p1''"] by simp
qed

section \<open>Join index: the service name of a pod\<close>

lemma hd_sort_Min:
  fixes xs :: "'a::linorder list"
  assumes "xs \<noteq> []"
  shows "hd (sort xs) = Min (set xs)"
proof -
  from assms have "sort xs \<noteq> []"
    by (metis length_0_conv length_sort)
  then obtain y ys where ys: "sort xs = y # ys"
    by (cases "sort xs") auto
  have "sorted (y # ys)" and set: "set (y # ys) = set xs"
    using ys sorted_sort set_sort by (metis, metis)
  then have "\<forall>z \<in> set xs. y \<le> z"
    by auto
  moreover have "y \<in> set xs"
    using set by auto
  ultimately have "Min (set xs) = y"
    by (intro Min_eqI) auto
  with ys show ?thesis by simp
qed

lemma set_getServiceNamesForPodUID:
  "set (getServiceNamesForPodUID psc P) = str_at (svcUIDNameCache psc) ` svcs_of psc P"
  by (simp add: getServiceNamesForPodUID_def svcs_of_def members_def image_image
        split: option.splits)

lemma getServiceNamesForPodUID_Nil:
  "getServiceNamesForPodUID psc P = [] \<longleftrightarrow> svcs_of psc P = {}"
  by (simp add: getServiceNamesForPodUID_def svcs_of_def members_def split: option.splits)

text \<open>
  C4. \<open>GetServiceNameForPodUID\<close> returns the error exactly when no service is joined
  to the pod; otherwise it returns, without error, the least name (in the bytewise
  lexicographic order of strings) among the cached names of the services joined to the
  pod.
\<close>

theorem deterministic_service_resolution:
  "GetServiceNameForPodUID psc P =
     (if svcs_of psc P = {} then ([], Some ''no service matched pod'')
      else (Min (str_at (svcUIDNameCache psc) ` svcs_of psc P), None))"
proof (cases "getServiceNamesForPodUID psc P = []")
  case True
  then show ?thesis
    using getServiceNamesForPodUID_Nil [of psc P]
    by (simp add: GetServiceNameForPodUID_def)
next
  case False
  then have "svcs_of psc P \<noteq> {}"
    using getServiceNamesForPodUID_Nil [of psc P] by simp
  then show ?thesis
    using False hd_sort_Min [OF False] set_getServiceNamesForPodUID [of psc P]
    by (simp add: GetServiceNameForPodUID_def)
qed

text \<open>Two services named \<open>web-b\<close> and \<open>web-a\<close> joined to one pod: the answer is \<open>web-a\<close>.\<close>

theorem deterministic_service_resolution_witness:
  "GetServiceNameForPodUID
     (psc_run [CallSetPod ex_pod, CallSetService (ex_svc\<lparr>SvcName := ''web-b''\<rparr>),
               CallSetService (ex_svc\<lparr>SvcUID := ''s2'', SvcName := ''web-a''\<rparr>)]) ''p1''
     = (''web-a'', None)
   \<and> Min (str_at (svcUIDNameCache
        (psc_run [CallSetPod ex_pod, CallSetService (ex_svc\<lparr>SvcName := ''web-b''\<rparr>),
                  CallSetService (ex_svc\<lparr>SvcUID := ''s2'', SvcName := ''web-a''\<rparr>)]))
        ` svcs_of
        (psc_run [CallSetPod ex_pod, CallSetService (ex_svc\<lparr>SvcName := ''web-b''\<rparr>),
                  CallSetService (ex_svc\<lparr>SvcUID := ''s2'', SvcName := ''web-a''\<rparr>)]) ''p1'')
     = ''web-a''
   \<and> GetServiceNameForPodUID NewPodServiceCache ''p1'' = ([], Some ''no service matched pod'')"
proof -
  let ?c = "psc_run [CallSetPod ex_pod, CallSetService (ex_svc\<lparr>SvcName := ''web-b''\<rparr>),
                     CallSetService (ex_svc\<lparr>SvcUID := ''s2'', SvcName := ''web-a''\<rparr>)]"
  have v: "GetServiceNameForPodUID ?c ''p1'' = (''web-a'', None)"
    by code_simp
  have n: "svcs_of ?c ''p1'' \<noteq> {}"
    by code_simp
  have e: "svcs_of NewPodServiceCache ''p1'' = {}"
    by code_simp
  show ?thesis
    using v n e deterministic_service_resolution [of ?c "''p1''"]
      deterministic_service_resolution [of NewPodServiceCache "''p1''"]
    by simp
qed

section \<open>PodCache and ServiceCache: change detection\<close>

lemma DeepEqual_Set_None [simp]: "DeepEqual_Set None ls \<longleftrightarrow> ls = None"
  by (simp add: DeepEqual_Set_def split: option.splits)

lemma pod_unrecorded_pc_step:
  "pod_unrecorded pc k \<Longrightarrow> pc_call_key c \<noteq> k \<Longrightarrow> pod_unrecorded (pc_step pc c) k"
  by (cases c)
     (simp_all add: pod_unrecorded_def PodCache_AddPod_def PodCache_DeleteByKey_def Let_def
        update_conv' delete_conv')

lemma pod_unrecorded_foldl:
  "pod_unrecorded pc k \<Longrightarrow> list_all (\<lambda>c. pc_call_key c \<noteq> k) calls \<Longrightarrow>
   pod_unrecorded (foldl pc_step pc calls) k"
  by (induction calls arbitrary: pc) (simp_all add: pod_unrecorded_pc_step)

lemma svc_unrecorded_sc_step:
  "svc_unrecorded sc k \<Longrightarrow> sc_call_key c \<noteq> k \<Longrightarrow> svc_unrecorded (sc_step sc c) k"
  by (cases c)
     (simp_all add: svc_unrecorded_def ServiceCache_AddService_def ServiceCache_DeleteByKey_def
        Let_def update_conv' delete_conv')

lemma svc_unrecorded_foldl:
  "svc_unrecorded sc k \<Longrightarrow> list_all (\<lambda>c. sc_call_key c \<noteq> k) calls \<Longrightarrow>
   svc_unrecorded (foldl sc_step sc calls) k"
  by (induction calls arbitrary: sc) (simp_all add: svc_unrecorded_sc_step)

lemma unrecorded_New:
  "pod_unrecorded NewPodCache k" "svc_unrecorded NewServiceCache k"
  by (simp_all add: pod_unrecorded_def svc_unrecorded_def NewPodCache_def NewServiceCache_def)

lemma ServiceCache_IsCached_unrecorded:
  "svc_unrecorded sc (SvcUID svc) \<Longrightarrow> \<not> ServiceCache_IsCached sc svc"
  by (simp add: svc_unrecorded_def ServiceCache_IsCached_def Let_def)

lemma PodCache_IsCached_unrecorded:
  "pod_unrecorded pc (PodUID pod) \<Longrightarrow>
   Labels pod \<noteq> None \<or> PodNamespace pod \<noteq> [] \<or> OwnerReferences pod \<noteq> None \<Longrightarrow>
   \<not> PodCache_IsCached pc pod"
  by (auto simp: pod_unrecorded_def PodCache_IsCached_def Let_def nil_at_def str_at_def)

text \<open>
  C9 does not hold of the code for pods. A resource whose key was never recorded should
  be reported changed, whatever its fields. \<open>PodCache.IsCached\<close> has no check that
  the key is present and compares the pod with the zero values that a missing key reads
  as: on a fresh cache, a pod with \<open>nil\<close> labels, an empty namespace and \<open>nil\<close> owner
  references is reported cached. (\<open>ServiceCache.IsCached\<close> reports every unrecorded
  service changed, \<open>ServiceCache_IsCached_unrecorded\<close>.)
\<close>

theorem unseen_zero_pod_is_cached:
  "pod_unrecorded NewPodCache ''p1''
   \<and> PodCache_IsCached NewPodCache
        \<lparr>PodUID = ''p1'', PodName = ''pod1'', PodNamespace = [], Labels = None,
         OwnerReferences = None\<rparr>"
  by code_simp

section \<open>PodCache: what a delete purges\<close>

lemma set_GetPodsInNamespace:
  "set (GetPodsInNamespace pc ns) = members (pc_namespacePodUIDCache pc) ns"
  by (simp add: GetPodsInNamespace_def members_def split: option.splits)

lemma last_added_AddPod: "last_added (PodCache_AddPod pc pod) pod"
  by (simp add: last_added_def PodCache_AddPod_def update_conv')

lemma members_add:
  "members (set_true (make_if_absent idx k) k x) k' =
     (if k' = k then insert x (members idx k) else members idx k')"
  by (simp add: members_set_true map_of_make_if_absent_same)

lemma last_added_pc_step:
  assumes "last_added pc pod" and "\<not> adds_key (PodUID pod) c"
  shows "last_added (pc_step pc c) pod"
proof (cases c)
  case (PcAddPod q)
  with assms show ?thesis
    by (auto simp: last_added_def PodCache_AddPod_def update_conv' members_add)
next
  case (PcDeleteByKey k)
  with assms show ?thesis
    by (auto simp: last_added_def PodCache_DeleteByKey_def Let_def delete_conv'
          members_delete_in str_at_def)
qed

lemma last_added_foldl:
  "last_added pc pod \<Longrightarrow> list_all (\<lambda>c. \<not> adds_key (PodUID pod) c) calls \<Longrightarrow>
   last_added (foldl pc_step pc calls) pod"
  by (induction calls arbitrary: pc) (simp_all add: last_added_pc_step)

lemma DeleteByKey_last_added:
  assumes "last_added pc pod"
  shows "map_of (pc_podUIDLabelCache (PodCache_DeleteByKey pc (PodUID pod))) (PodUID pod) = None"
    and "map_of (pc_podUIDNamespaceCache (PodCache_DeleteByKey pc (PodUID pod))) (PodUID pod) = None"
    and "GetLabels (PodCache_DeleteByKey pc (PodUID pod)) (PodUID pod) = None"
    and "PodUID pod \<notin> set (GetPodsInNamespace (PodCache_DeleteByKey pc (PodUID pod)) (PodNamespace pod))"
    and "GetOwnerReferences (PodCache_DeleteByKey pc (PodUID pod)) (PodUID pod) = OwnerReferences pod"
proof -
  show "map_of (pc_podUIDLabelCache (PodCache_DeleteByKey pc (PodUID pod))) (PodUID pod) = None"
    by (simp add: PodCache_DeleteByKey_def Let_def delete_conv')
  show "map_of (pc_podUIDNamespaceCache (PodCache_DeleteByKey pc (PodUID pod))) (PodUID pod) = None"
    by (simp add: PodCache_DeleteByKey_def Let_def delete_conv')
  show "GetLabels (PodCache_DeleteByKey pc (PodUID pod)) (PodUID pod) = None"
    by (simp add: GetLabels_def nil_at_def PodCache_DeleteByKey_def Let_def delete_conv')
  show "PodUID pod \<notin> set (GetPodsInNamespace (PodCache_DeleteByKey pc (PodUID pod)) (PodNamespace pod))"
    using assms
    by (auto simp: last_added_def set_GetPodsInNamespace PodCache_DeleteByKey_def Let_def
          members_delete_in str_at_def split: if_splits)
  show "GetOwnerReferences (PodCache_DeleteByKey pc (PodUID pod)) (PodUID pod) = OwnerReferences pod"
    using assms
    by (simp add: GetOwnerReferences_def nil_at_def last_added_def PodCache_DeleteByKey_def Let_def)
qed

text \<open>
  C10. Let the pod \<open>P\<close> be added with \<open>AddPod\<close> to any cache, let any calls follow
  that do not add a pod under the key of \<open>P\<close> again, and then \<open>DeleteByKey(P.UID)\<close>.
  Afterwards the label cache and the namespace cache have no entry for the key of \<open>P\<close>,
  \<open>GetLabels\<close> returns the \<open>nil\<close> label set, \<open>GetPodsInNamespace(P.Namespace)\<close> does
  not list \<open>P\<close>, and \<open>GetOwnerReferences(P.UID)\<close> still returns the owner references
  that the \<open>AddPod\<close> of \<open>P\<close> recorded.
\<close>

theorem partial_purge_on_pod_delete:
  "list_all (\<lambda>c. \<not> adds_key (PodUID P) c) calls \<Longrightarrow>
   map_of (pc_podUIDLabelCache
      (PodCache_DeleteByKey (foldl pc_step (PodCache_AddPod pc P) calls) (PodUID P))) (PodUID P) = None
   \<and> map_of (pc_podUIDNamespaceCache
      (PodCache_DeleteByKey (foldl pc_step (PodCache_AddPod pc P) calls) (PodUID P))) (PodUID P) = None
   \<and> GetLabels
      (PodCache_DeleteByKey (foldl pc_step (PodCache_AddPod pc P) calls) (PodUID P)) (PodUID P) = None
   \<and> PodUID P \<notin> set (GetPodsInNamespace
      (PodCache_DeleteByKey (foldl pc_step (PodCache_AddPod pc P) calls) (PodUID P)) (PodNamespace P))
   \<and> GetOwnerReferences
      (PodCache_DeleteByKey (foldl pc_step (PodCache_AddPod pc P) calls) (PodUID P)) (PodUID P)
      = OwnerReferences P"
proof -
  assume "list_all (\<lambda>c. \<not> adds_key (PodUID P) c) calls"
  then have "last_added (foldl pc_step (PodCache_AddPod pc P) calls) P"
    using last_added_foldl [OF last_added_AddPod] by blast
  then show ?thesis
    using DeleteByKey_last_added by blast
qed

theorem partial_purge_on_pod_delete_witness:
  "list_all (\<lambda>c. \<not> adds_key (PodUID ex_owned_pod) c)
     [PcAddPod (ex_pod\<lparr>PodUID := ''p2''\<rparr>), PcDeleteByKey ''p1'', PcDeleteByKey ''p3'']
   \<and> GetLabels
        (PodCache_DeleteByKey
          (foldl pc_step (PodCache_AddPod NewPodCache ex_owned_pod)
            [PcAddPod (ex_pod\<lparr>PodUID := ''p2''\<rparr>), PcDeleteByKey ''p1'', PcDeleteByKey ''p3''])
          ''p1'') ''p1'' = None
   \<and> ''p1'' \<notin> set (GetPodsInNamespace
        (PodCache_DeleteByKey
          (foldl pc_step (PodCache_AddPod NewPodCache ex_owned_pod)
            [PcAddPod (ex_pod\<lparr>PodUID := ''p2''\<rparr>), PcDeleteByKey ''p1'', PcDeleteByKey ''p3''])
          ''p1'') ''ns'')
   \<and> GetOwnerReferences
        (PodCache_DeleteByKey
          (foldl pc_step (PodCache_AddPod NewPodCache ex_owned_pod)
            [PcAddPod (ex_pod\<lparr>PodUID := ''p2''\<rparr>), PcDeleteByKey ''p1'', PcDeleteByKey ''p3''])
          ''p1'') ''p1''
      = Some [\<lparr>RefAPIVersion = ''apps/v1'', RefKind = ''ReplicaSet'', RefName = ''rs1'',
               RefUID = ''r1'', Controller = Some True, BlockOwnerDeletion = None\<rparr>]"
proof -
  have h: "list_all (\<lambda>c. \<not> adds_key (PodUID ex_owned_pod) c)
     [PcAddPod (ex_pod\<lparr>PodUID := ''p2''\<rparr>), PcDeleteByKey ''p1'', PcDeleteByKey ''p3'']"
    by (simp add: ex_owned_pod_def ex_pod_def)
  show ?thesis
    using h partial_purge_on_pod_delete [OF h, of NewPodCache]
    by (simp add: ex_owned_pod_def ex_pod_def)
qed

section \<open>DatapointCache: resources without an identity\<close>

lemma keyForObject_fails_iff: "(\<exists>err. keyForObject ob = Inl err) \<longleftrightarrow> ob = OtherObj None"
  by (cases ob rule: keyForObject.cases) simp_all

lemma HandleAdd_unknown_type: "HandleAdd D dc (OtherObj u) = Inr (None, dc)"
  by (simp add: HandleAdd_def)

text \<open>
  C7. When no key can be extracted from the object, \<open>HandleAdd\<close> returns \<open>nil\<close>
  and the cache it leaves is the cache it was given: datapoints, dimension properties,
  kinds and join index are all unchanged. (Such an object is of none of the nine handled
  types, so the type switch has already returned in its \<open>default\<close> branch.)
\<close>

theorem malformed_resource_atomicity:
  "keyForObject ob = Inl err \<Longrightarrow> HandleAdd D dc ob = Inr (None, dc)"
  by (cases ob rule: keyForObject.cases) (simp_all add: HandleAdd_def)

theorem malformed_resource_atomicity_witness:
  "keyForObject (OtherObj None) = Inl ''K8s object is not of the expected form''
   \<and> HandleAdd ex_derive ex_cache (OtherObj None) = Inr (None, ex_cache)"
proof -
  have h: "keyForObject (OtherObj None) = Inl ''K8s object is not of the expected form''"
    by simp
  show ?thesis
    using h malformed_resource_atomicity [OF h, of ex_derive ex_cache] by simp
qed

section \<open>DatapointCache: unknown keys\<close>

lemma DeleteByKey_unknown_key:
  assumes "map_of (uidKindCache dc) k = None" and "map_of (dpCache dc) k = None"
    and "map_of (dimPropCache dc) k = None"
  shows "DeleteByKey dc k = Inr dc"
proof -
  have "k \<notin> fst ` set (uidKindCache dc)" "k \<notin> fst ` set (dpCache dc)"
    "k \<notin> fst ` set (dimPropCache dc)"
    using assms by (simp_all add: map_of_eq_None_iff)
  then show ?thesis
    using assms(1) by (simp add: DeleteByKey_def str_at_def)
qed

lemma deleteProperties_unknown_key:
  "nil_at (dimPropCache dc) k = None \<Longrightarrow>
   deletePropertiesFromDimProps dc k (prop # rest) = Inl NilPointerDereference"
  by (simp add: deletePropertiesFromDimProps_def)

lemma updateServiceProp_unknown_key:
  "nil_at (dimPropCache dc) k = None \<Longrightarrow>
   updateServicePropForPods dc (k # rest) = Inl NilPointerDereference"
  by (simp add: updateServiceProp_def split: prod.splits)

lemma addProperties_unknown_key:
  "nil_at (dimPropCache dc) k = None \<Longrightarrow>
   addPropertiesToDimProps dc k ((a, b) # rest) = Inl NilPointerDereference"
  by (simp add: addPropertiesToDimProps_def)

text \<open>
  C6 does not hold of the code. \<open>DeleteByKey\<close> on an unknown key is a no-op
  (\<open>DeleteByKey_unknown_key\<close>), but \<open>addPropertiesToDimProps\<close>,
  \<open>deletePropertiesFromDimProps\<close> and the update of the \<open>service\<close> property read
  \<open>dc.dimPropCache[key].Properties\<close> through the \<open>nil\<close> pointer that a key without a
  record gives: on a fresh cache, adding one property to the key \<open>u1\<close> panics.
\<close>

theorem add_properties_unknown_key_panics:
  "addPropertiesToDimProps (NewDatapointCache False) ''u1'' [(''k'', ''v'')]
     = Inl NilPointerDereference"
  by code_simp

section \<open>DatapointCache: deleting a service\<close>

lemma GetServiceNameForPodUID_unjoined:
  "svcs_of psc P = {} \<Longrightarrow>
   GetServiceNameForPodUID psc P = ([], Some ''no service matched pod'')"
  using getServiceNamesForPodUID_Nil [of psc P]
  by (simp add: GetServiceNameForPodUID_def)

lemma updateServiceProp_unjoined:
  assumes "svcs_of (podServiceCache dc) P = {}" and "nil_at (dimPropCache dc) P = Some dp"
  shows "updateServiceProp dc P =
     Inr (dc\<lparr>dimPropCache :=
            AList.update P (Some (dp\<lparr>Properties := prop_delete (Properties dp) ''service''\<rparr>))
              (dimPropCache dc)\<rparr>)"
  using assms by (simp add: updateServiceProp_def GetServiceNameForPodUID_unjoined)

lemma nil_at_update:
  "nil_at (AList.update k v m) k' = (if k' = k then v else nil_at m k')"
  by (simp add: nil_at_def update_conv')

lemma nil_at_delete:
  "nil_at (AList.delete k m) k' = (if k' = k then None else nil_at m k')"
  by (simp add: nil_at_def delete_conv')

lemma has_service_prop_cleared:
  assumes "nil_at (dimPropCache dc) P = Some dp"
  shows "has_service_prop
     (dc\<lparr>dimPropCache :=
          AList.update P (Some (dp\<lparr>Properties := prop_delete (Properties dp) ''service''\<rparr>))
            (dimPropCache dc)\<rparr>) k
     \<longleftrightarrow> has_service_prop dc k \<and> k \<noteq> P"
  using assms
  by (auto simp: has_service_prop_def nil_at_update prop_delete_def delete_conv'
        split: option.splits)

lemma updateServicePropForPods_unjoined:
  assumes "\<forall>P \<in> set pods. svcs_of (podServiceCache dc) P = {} \<and> nil_at (dimPropCache dc) P \<noteq> None"
  shows "\<exists>dc'. updateServicePropForPods dc pods = Inr dc'
     \<and> podServiceCache dc' = podServiceCache dc
     \<and> (\<forall>k. nil_at (dimPropCache dc') k = None \<longleftrightarrow> nil_at (dimPropCache dc) k = None)
     \<and> (\<forall>k. has_service_prop dc' k \<longrightarrow> has_service_prop dc k \<and> k \<notin> set pods)"
  using assms
proof (induction pods arbitrary: dc)
  case Nil
  then show ?case by simp
next
  case (Cons P pods)
  from Cons.prems obtain dp where dp: "nil_at (dimPropCache dc) P = Some dp"
    by auto
  let ?dc1 = "dc\<lparr>dimPropCache :=
      AList.update P (Some (dp\<lparr>Properties := prop_delete (Properties dp) ''service''\<rparr>))
        (dimPropCache dc)\<rparr>"
  have step: "updateServiceProp dc P = Inr ?dc1"
    using Cons.prems dp by (simp add: updateServiceProp_unjoined)
  have "\<forall>Q \<in> set pods. svcs_of (podServiceCache ?dc1) Q = {} \<and> nil_at (dimPropCache ?dc1) Q \<noteq> None"
    using Cons.prems by (simp add: nil_at_update)
  from Cons.IH [OF this] obtain dc' where
    run: "updateServicePropForPods ?dc1 pods = Inr dc'"
    and psc: "podServiceCache dc' = podServiceCache ?dc1"
    and recs: "\<forall>k. nil_at (dimPropCache dc') k = None \<longleftrightarrow> nil_at (dimPropCache ?dc1) k = None"
    and props: "\<forall>k. has_service_prop dc' k \<longrightarrow> has_service_prop ?dc1 k \<and> k \<notin> set pods"
    by blast
  have "\<forall>k. has_service_prop dc' k \<longrightarrow> has_service_prop dc k \<and> k \<notin> set (P # pods)"
    using props has_service_prop_cleared [OF dp] by auto
  moreover have "\<forall>k. nil_at (dimPropCache dc') k = None \<longleftrightarrow> nil_at (dimPropCache dc) k = None"
    using recs dp by (simp add: nil_at_update)
  ultimately show ?case
    using step run psc by simp
qed

lemma updateServiceProp_psc:
  "updateServiceProp dc P = Inr dc' \<Longrightarrow> podServiceCache dc' = podServiceCache dc"
  by (auto simp: updateServiceProp_def split: prod.splits option.splits if_splits sum.splits)

lemma updateServicePropForPods_psc:
  "updateServicePropForPods dc pods = Inr dc' \<Longrightarrow> podServiceCache dc' = podServiceCache dc"
proof (induction pods arbitrary: dc)
  case Nil
  then show ?case by simp
next
  case (Cons P pods)
  then show ?case
    by (auto split: sum.splits dest: updateServiceProp_psc)
qed

lemma addDimPropsToCache_psc:
  "addDimPropsToCache dc key dp = Inr dc' \<Longrightarrow> podServiceCache dc' = podServiceCache dc"
  by (auto simp: addDimPropsToCache_def links_def)

lemma HandleAdd_switch_join_sym:
  assumes "HandleAdd_switch D dc ob = Some (Inr (dps, dimProps, kind, dc1))"
    and "join_sym (podServiceCache dc)"
  shows "join_sym (podServiceCache dc1)"
proof (cases ob)
  case (PodObj pod)
  with assms show ?thesis
    by (auto simp: handleAddPod_def Let_def join_sym_SetPod
          split: sum.splits prod.splits option.splits if_splits)
next
  case (ServiceObj svc)
  with assms show ?thesis
    by (auto simp: handleAddService_def Let_def join_sym_SetService
          split: sum.splits dest!: updateServicePropForPods_psc)
qed (use assms in auto)

lemma HandleAdd_join_sym:
  assumes "HandleAdd D dc ob = Inr (key, dc')" and "join_sym (podServiceCache dc)"
  shows "join_sym (podServiceCache dc')"
proof (cases "HandleAdd_switch D dc ob")
  case None
  with assms show ?thesis by (simp add: HandleAdd_def)
next
  case (Some r)
  show ?thesis
  proof (cases r)
    case (Inl f)
    with Some assms show ?thesis by (simp add: HandleAdd_def)
  next
    case (Inr t)
    obtain dps dimProps kind dc1 where t: "t = (dps, dimProps, kind, dc1)"
      by (cases t) auto
    have "join_sym (podServiceCache dc1)"
      using HandleAdd_switch_join_sym [OF _ assms(2)] Some Inr t by simp
    then show ?thesis
      using assms(1) Some Inr t
      by (auto simp: HandleAdd_def Let_def split: sum.splits option.splits if_splits
            dest!: addDimPropsToCache_psc)
  qed
qed

lemma DeleteByKey_join_sym:
  assumes "DeleteByKey dc k = Inr dc'" and "join_sym (podServiceCache dc)"
  shows "join_sym (podServiceCache dc')"
  using assms
  by (auto simp: DeleteByKey_def handleDeletePod_def handleDeleteService_def Let_def
        join_sym_DeletePodFromCache join_sym_DeleteServiceFromCache
        split: if_splits sum.splits dest!: updateServicePropForPods_psc)

lemma dc_run_join_sym:
  "dc_run D dc evs = Inr dc' \<Longrightarrow> join_sym (podServiceCache dc) \<Longrightarrow>
   join_sym (podServiceCache dc')"
proof (induction D dc evs rule: dc_run.induct)
  case (1 D dc)
  then show ?case by simp
next
  case (2 D dc ob rest)
  then show ?case
    by (auto split: sum.splits dest: HandleAdd_join_sym)
next
  case (3 D dc k rest)
  then show ?case
    by (auto split: sum.splits dest: DeleteByKey_join_sym)
qed

lemma join_sym_reachable:
  "dc_run D (NewDatapointCache b) evs = Inr dc \<Longrightarrow> join_sym (podServiceCache dc)"
  using dc_run_join_sym [of D "NewDatapointCache b" evs dc] join_sym_New
  by (simp add: NewDatapointCache_def)

text \<open>
  Where the set of every pod joined to \<open>S\<close> holds no service but \<open>S\<close>, and every such
  pod has a dimension-property record, the deletion does cascade: \<open>DeleteByKey(S)\<close>
  returns without a panic, every pod that was joined to \<open>S\<close> keeps its record and has no
  \<open>service\<close> property in it, and \<open>S\<close> is gone from both index maps.
\<close>

lemma deletion_cascades_in_index:
  assumes "str_at (uidKindCache dc) S = ''Service''"
    and "join_sym (podServiceCache dc)"
    and "\<forall>P \<in> pods_of (podServiceCache dc) S.
           svcs_of (podServiceCache dc) P \<subseteq> {S} \<and> nil_at (dimPropCache dc) P \<noteq> None"
  shows "\<exists>dc'. DeleteByKey dc S = Inr dc'
     \<and> (\<forall>P \<in> pods_of (podServiceCache dc) S.
           P \<noteq> S \<longrightarrow> nil_at (dimPropCache dc') P \<noteq> None \<and> service_prop dc' P = None)
     \<and> map_of (svcPodUIDCache (podServiceCache dc')) S = None
     \<and> (\<forall>P. S \<notin> svcs_of (podServiceCache dc') P)"
proof -
  let ?psc = "podServiceCache dc"
  let ?psc1 = "DeleteServiceFromCache ?psc S"
  let ?dc1 = "dc\<lparr>podServiceCache := ?psc1\<rparr>"
  let ?pods = "GetPodUIDsForServiceUID ?psc S"
  have pods: "set ?pods = pods_of ?psc S"
    by (simp add: GetPodUIDsForServiceUID_def pods_of_def members_def split: option.splits)
  have "\<forall>P \<in> set ?pods. svcs_of (podServiceCache ?dc1) P = {} \<and> nil_at (dimPropCache ?dc1) P \<noteq> None"
    using assms(3) by (auto simp: pods svcs_of_DeleteServiceFromCache)
  from updateServicePropForPods_unjoined [OF this] obtain dc2 where
    run: "updateServicePropForPods ?dc1 ?pods = Inr dc2"
    and psc: "podServiceCache dc2 = ?psc1"
    and recs: "\<forall>k. nil_at (dimPropCache dc2) k = None \<longleftrightarrow> nil_at (dimPropCache ?dc1) k = None"
    and props: "\<forall>k. has_service_prop dc2 k \<longrightarrow> has_service_prop ?dc1 k \<and> k \<notin> set ?pods"
    by auto
  let ?dc3 = "dc2\<lparr>uidKindCache := AList.delete S (uidKindCache dc2),
                  dpCache := AList.delete S (dpCache dc2),
                  dimPropCache := AList.delete S (dimPropCache dc2)\<rparr>"
  have del: "DeleteByKey dc S = Inr ?dc3"
    using assms(1) run by (simp add: DeleteByKey_def handleDeleteService_def Let_def)
  have cleared: "\<forall>P \<in> pods_of ?psc S.
      P \<noteq> S \<longrightarrow> nil_at (dimPropCache ?dc3) P \<noteq> None \<and> service_prop ?dc3 P = None"
  proof (intro ballI impI)
    fix P assume P: "P \<in> pods_of ?psc S" and ne: "P \<noteq> S"
    have "\<not> has_service_prop dc2 P"
      using props pods P by blast
    moreover have "nil_at (dimPropCache dc2) P \<noteq> None"
      using recs assms(3) P by simp
    ultimately show "nil_at (dimPropCache ?dc3) P \<noteq> None \<and> service_prop ?dc3 P = None"
      using ne
      by (auto simp: nil_at_delete has_service_prop_def service_prop_def split: option.splits)
  qed
  have entry: "map_of (svcPodUIDCache ?psc1) S = None"
    by (simp add: DeleteServiceFromCache_def Let_def delete_conv' split: option.splits)
  have "join_sym ?psc1"
    using assms(2) by (rule join_sym_DeleteServiceFromCache)
  then have none: "\<forall>P. S \<notin> svcs_of ?psc1 P"
    by (simp add: join_sym_def pods_of_DeleteServiceFromCache)
  show ?thesis
    using del cleared entry none psc by simp
qed

text \<open>
  C5 does not hold of the code. After the deletion of a service \<open>S\<close>, a pod that was
  joined to \<open>S\<close> and that no other cached service matches should have no \<open>service\<close>
  property. The join index keeps the relations that an earlier selector made (the
  defect of C2), and the deletion resolves the property from the index. After the
  events \<open>ex_stale_events\<close> the only cached service whose selector matches \<open>p1\<close> is
  \<open>s1\<close>, and \<open>p1\<close> is joined to \<open>s1\<close>; yet after \<open>DeleteByKey(s1)\<close>, which returns
  without a panic, the record of \<open>p1\<close> has the \<open>service\<close> property \<open>svc2\<close>, while no
  cached service matches \<open>p1\<close>.
\<close>

theorem deleted_service_leaves_stale_property:
  "dc_run ex_derive (NewDatapointCache False) ex_stale_events = Inr ex_stale_cache
   \<and> str_at (uidKindCache ex_stale_cache) ''s1'' = ''Service''
   \<and> ''p1'' \<in> pods_of (podServiceCache ex_stale_cache) ''s1''
   \<and> matching_services (podServiceCache ex_stale_cache) (Labels ex_pod) (PodNamespace ex_pod)
        = [''s1'']
   \<and> (case DeleteByKey ex_stale_cache ''s1'' of
         Inl f \<Rightarrow> False
       | Inr dc \<Rightarrow>
           service_prop dc ''p1'' = Some ''svc2''
           \<and> matching_services (podServiceCache dc) (Labels ex_pod) (PodNamespace ex_pod) = [])"
  by code_simp

section \<open>Reads\<close>

lemma map_of_fold_update:
  "distinct (map fst m) \<Longrightarrow>
   map_of (fold (\<lambda>(k, v) c. AList.update k v c) m acc) k' =
     (case map_of m k' of None \<Rightarrow> map_of acc k' | Some v \<Rightarrow> Some v)"
proof (induction m arbitrary: acc)
  case Nil
  then show ?case by simp
next
  case (Cons e m)
  obtain k v where e: "e = (k, v)" by (cases e)
  from Cons.prems have "map_of m k = None" and "distinct (map fst m)"
    by (simp_all add: e map_of_eq_None_iff)
  then show ?case
    by (auto simp: e Cons.IH update_conv' split: option.splits)
qed

lemma Copy_same_content:
  assumes "distinct (map fst (case Properties dp of None \<Rightarrow> [] | Some m \<Rightarrow> m))"
  shows "Dimension (Copy dp) = Dimension dp"
    and "prop_at (Properties (Copy dp)) k = prop_at (Properties dp) k"
proof -
  show "Dimension (Copy dp) = Dimension dp"
    by (simp add: Copy_def)
  show "prop_at (Properties (Copy dp)) k = prop_at (Properties dp) k"
  proof (cases "Properties dp")
    case None
    then show ?thesis by (simp add: Copy_def prop_at_def str_at_def)
  next
    case (Some m)
    with assms have "distinct (map fst m)" by simp
    then show ?thesis
      using Some by (simp add: Copy_def prop_at_def str_at_def map_of_fold_update split: option.splits)
  qed
qed

text \<open>
  C8 does not hold of the code for datapoints. The copy that \<open>AllDatapoints\<close> returns
  shares the \<open>Dimensions\<close> map of the cached datapoint: after the caller writes
  \<open>changed\<close> into the dimension \<open>kubernetes_pod_uid\<close> of the returned datapoint, a second
  call shows \<open>changed\<close> where the first showed \<open>p1\<close>.
\<close>

theorem returned_datapoint_shares_dimensions:
  "shown ex_store ex_dp_cache =
     Some [Some (''kubernetes.pod_phase'', Some [(''kubernetes_pod_uid'', ''p1'')])]
   \<and> shown_after_write ex_store ex_dp_cache ''kubernetes_pod_uid'' ''changed'' =
     Some [Some (''kubernetes.pod_phase'', Some [(''kubernetes_pod_uid'', ''changed'')])]"
  by code_simp

end
